theory Spec2Isabelle
  imports Complex_Main "HOL-Library.Word"
begin

section \<open>Numbers of the browser client and of the Go server\<close>

text \<open>
  A JavaScript number and a Go \<open>float64\<close> are both IEEE 754 doubles. The model keeps the
  three non-finite values apart from the finite ones and computes on the finite ones with
  exact real arithmetic: the rounding of a double is not modelled.
\<close>

datatype float64 = Finite real | NaN | PosInf | NegInf

type_synonym number = float64

text \<open>\<open>a / b\<close> on two finite JavaScript numbers: a zero divisor gives NaN or an infinity.\<close>

definition js_div :: "real \<Rightarrow> real \<Rightarrow> number" where
  "js_div a b =
     (if b \<noteq> 0 then Finite (a / b)
      else if a = 0 then NaN
      else if 0 < a then PosInf else NegInf)"

text \<open>\<open>x * c\<close> for a finite constant \<open>c\<close>.\<close>

fun js_mul :: "number \<Rightarrow> real \<Rightarrow> number" where
  "js_mul (Finite x) c = Finite (x * c)"
| "js_mul NaN c = NaN"
| "js_mul PosInf c = (if 0 < c then PosInf else if c < 0 then NegInf else NaN)"
| "js_mul NegInf c = (if 0 < c then NegInf else if c < 0 then PosInf else NaN)"

text \<open>
  Truthiness of a property of the \<open>results\<close> object: \<open>undefined\<close> (a property never
  assigned, \<open>None\<close>), \<open>0\<close> and \<open>NaN\<close> are falsy.
\<close>

fun truthy :: "number option \<Rightarrow> bool" where
  "truthy None = False"
| "truthy (Some (Finite x)) = (x \<noteq> 0)"
| "truthy (Some NaN) = False"
| "truthy (Some PosInf) = True"
| "truthy (Some NegInf) = True"

text \<open>\<open>v || 0\<close> on a number.\<close>

definition or_zero :: "number \<Rightarrow> number" where
  "or_zero v = (if truthy (Some v) then v else Finite 0)"

subsection \<open>Text of a result element\<close>

text \<open>
  A result element of the page shows either the literal \<open>N/A\<close> or
  \<open>value.toFixed(2) + unit\<close>. \<open>Fixed2 v\<close> stands for the second kind of string.
\<close>

datatype elem_text = NA | Fixed2 number

text \<open>
  The number that \<open>v.toFixed(2)\<close> denotes: the magnitude of \<open>v\<close> rounded to two decimals
  (a tie goes away from zero) under the sign of \<open>v\<close>; from \<open>10^21\<close> on \<open>toFixed\<close>
  prints the number itself.
\<close>

definition toFixed2 :: "number \<Rightarrow> number" where
  "toFixed2 v =
     (case v of
        Finite x \<Rightarrow>
          if 10 ^ 21 \<le> \<bar>x\<bar> then Finite x
          else if x < 0 then Finite (- (of_int (round (- x * 100)) / 100))
          else Finite (of_int (round (x * 100)) / 100)
      | _ \<Rightarrow> v)"

text \<open>
  \<open>parseFloat\<close> on the text of a result element: \<open>N/A\<close> is not a number; otherwise the
  leading number is read and the unit ignored (\<open>Infinity\<close> is read as such).
\<close>

fun parseFloat :: "elem_text \<Rightarrow> number" where
  "parseFloat NA = NaN"
| "parseFloat (Fixed2 v) = toFixed2 v"

section \<open>The browser client: state of a measurement run\<close>

text \<open>The global \<open>results\<close> object; a property that was never assigned is \<open>None\<close>.\<close>

record results_obj =
  latency :: "number option"
  download :: "number option"
  upload :: "number option"
  packetLoss :: "number option"
  jitter :: "number option"

definition empty_results :: results_obj where
  "empty_results =
     \<lparr>latency = None, download = None, upload = None, packetLoss = None, jitter = None\<rparr>"

text \<open>The object \<open>finalResults\<close> that \<open>finalizeTest\<close> posts to \<open>/save-result\<close>.\<close>

record finalResults =
  downloadSpeedMbps :: number
  uploadSpeedMbps :: number
  latencyMs :: number
  jitterMs :: number
  packetLossPercent :: number

text \<open>An entry of the history kept in \<open>localStorage\<close>.\<close>

record historyItem =
  h_timestamp :: string
  h_latency :: elem_text
  h_download :: elem_text
  h_upload :: elem_text
  h_jitter :: elem_text
  h_packetLoss :: elem_text

text \<open>Requests the client issues with \<open>fetch\<close>, in the order of issue.\<close>

datatype request =
    LatencyReq
  | DownloadReq int
  | UploadReq int
  | SignalingReq
  | SaveResultReq finalResults

datatype share = ShareEmpty | ShareLink string | ShareFailed

text \<open>
  The page: the \<open>results\<close> object, the text of the five result elements and of the four
  status elements, the start button, the share link, the log of requests, the promise
  chains of \<open>/save-result\<close> that have not settled yet (each holds the \<open>finalResults\<close>
  it captured) and the stored history.
\<close>

record page =
  results :: results_obj
  latency_result :: elem_text
  download_result :: elem_text
  upload_result :: elem_text
  loss_result :: elem_text
  jitter_result :: elem_text
  latency_status :: string
  download_status :: string
  upload_status :: string
  jitter_status :: string
  start_btn_disabled :: bool
  share_url :: share
  requests :: "request list"
  pending :: "finalResults list"
  history :: "historyItem list"

definition MAX_HISTORY_ITEMS :: nat where
  "MAX_HISTORY_ITEMS = 5"

definition NUM_PACKETS :: nat where
  "NUM_PACKETS = 250"

subsection \<open>History\<close>

definition history_text :: "number \<Rightarrow> elem_text" where
  "history_text v = (if truthy (Some v) then Fixed2 v else NA)"

text \<open>
  \<open>saveHistory\<close>: the new item goes to the front and the list is cut to five entries.
  \<open>now\<close> is the string of \<open>new Date().toLocaleString()\<close>. Failures of
  \<open>localStorage\<close> are not modelled.
\<close>

definition saveHistory :: "string \<Rightarrow> finalResults \<Rightarrow> page \<Rightarrow> page" where
  "saveHistory now result s =
     (let historyItem =
            \<lparr>h_timestamp = now,
             h_latency = history_text (latencyMs result),
             h_download = history_text (downloadSpeedMbps result),
             h_upload = history_text (uploadSpeedMbps result),
             h_jitter = history_text (jitterMs result),
             h_packetLoss = history_text (packetLossPercent result)\<rparr>;
          history1 = historyItem # history s
      in s\<lparr>history :=
             (if MAX_HISTORY_ITEMS < length history1 then take MAX_HISTORY_ITEMS history1
              else history1)\<rparr>)"

subsection \<open>Finalization\<close>

text \<open>
  \<open>finalizeTest(success = true)\<close>, the part that runs at the call: the share link is
  cleared; on \<open>success\<close> the five result elements are parsed into \<open>finalResults\<close> and
  the POST to \<open>/save-result\<close> is issued. The callbacks of the promise run later, see
  \<open>save_settled\<close>. Without \<open>success\<close> the function writes \<open>N/A\<close> to the elements
  \<open>download\<close>, \<open>upload\<close>, \<open>latency\<close>, \<open>jitter\<close> and \<open>packet-loss\<close>, which are
  not among the elements of the page modelled here, and releases the button.
\<close>

definition build_finalResults :: "page \<Rightarrow> finalResults" where
  "build_finalResults s =
     \<lparr>downloadSpeedMbps = or_zero (parseFloat (download_result s)),
      uploadSpeedMbps = or_zero (parseFloat (upload_result s)),
      latencyMs = or_zero (parseFloat (latency_result s)),
      jitterMs = or_zero (parseFloat (jitter_result s)),
      packetLossPercent = or_zero (parseFloat (loss_result s))\<rparr>"

definition finalizeTest :: "bool \<Rightarrow> page \<Rightarrow> page" where
  "finalizeTest success s =
     (let s1 = s\<lparr>share_url := ShareEmpty\<rparr>
      in if \<not> success then s1\<lparr>start_btn_disabled := False\<rparr>
         else let fr = build_finalResults s1
              in s1\<lparr>requests := requests s1 @ [SaveResultReq fr],
                     pending := pending s1 @ [fr]\<rparr>)"

text \<open>How a POST to \<open>/save-result\<close> ends, as the client sees it.\<close>

datatype save_outcome = SavedId string | SavedNoId | SaveError

text \<open>
  The callbacks of the oldest unsettled \<open>/save-result\<close> promise: \<open>then\<close> or \<open>catch\<close>
  set the share link, \<open>finally\<close> stores the history and releases the button, both only
  while the button is still disabled and one of latency, download, upload is truthy.
\<close>

definition save_settled :: "save_outcome \<Rightarrow> string \<Rightarrow> page \<Rightarrow> page" where
  "save_settled outcome now s =
     (case pending s of
        [] \<Rightarrow> s
      | fr # rest \<Rightarrow>
          (let s1 = s\<lparr>pending := rest\<rparr>;
               s2 = (case outcome of
                       SavedId resultId \<Rightarrow>
                         if resultId \<noteq> [] then s1\<lparr>share_url := ShareLink resultId\<rparr> else s1
                     | SavedNoId \<Rightarrow> s1
                     | SaveError \<Rightarrow> s1\<lparr>share_url := ShareFailed\<rparr>)
           in if start_btn_disabled s2 then
                (if truthy (latency (results s2)) \<or> truthy (download (results s2))
                    \<or> truthy (upload (results s2))
                 then (saveHistory now fr s2)\<lparr>start_btn_disabled := False\<rparr>
                 else s2)
              else s2))"

section \<open>Jitter and packet loss\<close>

text \<open>
  The loop of \<open>calculateJitterLoss\<close> over \<open>i = 1, ..., rtts.length - 1\<close>, with its two
  variables \<open>sumOfDifferences\<close> and \<open>previousRTT\<close>.
\<close>

function jitter_loop :: "real list \<Rightarrow> nat \<Rightarrow> real \<Rightarrow> real \<Rightarrow> real" where
  "jitter_loop rtts i sumOfDifferences previousRTT =
     (if i < length rtts
      then jitter_loop rtts (i + 1) (sumOfDifferences + \<bar>rtts ! i - previousRTT\<bar>) (rtts ! i)
      else sumOfDifferences)"
  by pat_completeness auto
termination
  by (relation "measure (\<lambda>(rtts, i, s, p). length rtts - i)") auto

declare jitter_loop.simps [simp del]

definition lossPercent :: "real list \<Rightarrow> nat \<Rightarrow> number" where
  "lossPercent rtts totalPacketsSent =
     (let receivedPackets = length rtts
      in js_mul (js_div (real totalPacketsSent - real receivedPackets) (real totalPacketsSent)) 100)"

definition averageJitter :: "real list \<Rightarrow> number" where
  "averageJitter rtts =
     (let receivedPackets = length rtts;
          previousRTT = (if 0 < length rtts then rtts ! 0 else 0);
          sumOfDifferences = jitter_loop rtts 1 0 previousRTT
      in if 1 < receivedPackets then js_div sumOfDifferences (real receivedPackets - 1)
         else Finite 0)"

text \<open>
  \<open>calculateJitterLoss(rtts, totalPacketsSent)\<close>: the round-trip times are finite numbers
  in the order of arrival, the count of packets sent is a counter that starts at 0.
\<close>

definition calculateJitterLoss :: "real list \<Rightarrow> nat \<Rightarrow> page \<Rightarrow> page" where
  "calculateJitterLoss rtts totalPacketsSent s =
     (let loss = lossPercent rtts totalPacketsSent;
          avg = averageJitter rtts;
          s1 = s\<lparr>results := (results s)\<lparr>packetLoss := Some loss, jitter := Some avg\<rparr>\<rparr>;
          s2 = s1\<lparr>loss_result := Fixed2 loss, jitter_result := Fixed2 avg,
                  jitter_status := ''Complete''\<rparr>
      in finalizeTest True s2)"

section \<open>The browser client: the sequence of sub-tests\<close>

text \<open>
  The first part of \<open>runAllTests\<close>: the button is disabled, the five result elements
  show \<open>N/A\<close>, the four status elements show \<open>Ready\<close> and \<open>results\<close> is a new
  empty object.
\<close>

definition reset_run :: "page \<Rightarrow> page" where
  "reset_run s =
     s\<lparr>start_btn_disabled := True,
       latency_result := NA, download_result := NA, upload_result := NA,
       loss_result := NA, jitter_result := NA,
       latency_status := ''Ready'', download_status := ''Ready'',
       upload_status := ''Ready'', jitter_status := ''Ready'',
       results := empty_results\<rparr>"

subsection \<open>Latency\<close>

text \<open>
  How one request to \<open>/latency\<close> ends: a response with \<open>response.ok\<close> after
  \<open>end - start\<close> milliseconds, a response that is not ok, or a rejected \<open>fetch\<close>.
\<close>

datatype ping_outcome = PingOk real | PingNotOk | PingThrew

text \<open>
  The loop \<open>for (let i = 0; i < numPings; i++)\<close> of \<open>runLatencyTest\<close>; its state is
  the array \<open>latencies\<close> and the log of requests.
\<close>

function latency_loop ::
  "(nat \<Rightarrow> ping_outcome) \<Rightarrow> nat \<Rightarrow> nat \<Rightarrow> real list \<times> request list
     \<Rightarrow> real list \<times> request list" where
  "latency_loop pings numPings i (latencies, reqs) =
     (if i < numPings
      then latency_loop pings numPings (i + 1)
             ((case pings i of PingOk d \<Rightarrow> latencies @ [d] | PingNotOk \<Rightarrow> latencies
               | PingThrew \<Rightarrow> latencies),
              reqs @ [LatencyReq])
      else (latencies, reqs))"
  by pat_completeness auto
termination
  by (relation "measure (\<lambda>(pings, numPings, i, st). numPings - i)") auto

declare latency_loop.simps [simp del]

definition runLatencyTest :: "(nat \<Rightarrow> ping_outcome) \<Rightarrow> page \<Rightarrow> page" where
  "runLatencyTest pings s =
     (let s1 = s\<lparr>latency_status := ''Pinging...''\<rparr>;
          numPings = 10;
          (latencies, reqs) = latency_loop pings numPings 0 ([], requests s1);
          s2 = s1\<lparr>requests := reqs\<rparr>
      in if length latencies = 0 then s2\<lparr>latency_status := ''Failed to measure.''\<rparr>
         else let total = foldl (+) 0 latencies;
                  avgLatency = js_div total (real (length latencies))
              in s2\<lparr>results := (results s2)\<lparr>latency := Some avgLatency\<rparr>,
                     latency_result := Fixed2 avgLatency,
                     latency_status := ''Complete''\<rparr>)"

text \<open>
  The round-trip times of the successful trips among \<open>i, ..., n - 1\<close>, in order: what the
  specification calls the successful round-trip times.
\<close>

definition successful_rtts :: "(nat \<Rightarrow> ping_outcome) \<Rightarrow> nat \<Rightarrow> nat \<Rightarrow> real list" where
  "successful_rtts pings i n =
     concat (map (\<lambda>k. case pings k of PingOk d \<Rightarrow> [d] | PingNotOk \<Rightarrow> [] | PingThrew \<Rightarrow> [])
                 [i..<n])"

subsection \<open>Download and upload\<close>

definition MAX_SIZE_MB :: int where
  "MAX_SIZE_MB = 100"

text \<open>
  \<open>validateSize\<close> followed by \<open>parseInt(input.value)\<close>; the argument is
  \<open>parseInt(input.value)\<close> before the validation, \<open>None\<close> for NaN.
\<close>

definition validateSize :: "int option \<Rightarrow> int \<Rightarrow> int" where
  "validateSize v mx =
     (case v of
        None \<Rightarrow> 1
      | Some x \<Rightarrow> if x < 1 then 1 else if mx < x then mx else x)"

text \<open>
  How the download ends: \<open>fetch\<close> or a read of the stream throws, the status is not ok,
  or the stream ends after so many bytes and milliseconds.
\<close>

datatype download_outcome = DownloadThrew | DownloadNotOk | DownloadDone nat real

definition runDownloadTest :: "int option \<Rightarrow> download_outcome \<Rightarrow> page \<Rightarrow> page" where
  "runDownloadTest input outcome s =
     (let s1 = s\<lparr>download_status := ''Testing Download...''\<rparr>;
          requestedSizeMB = validateSize input MAX_SIZE_MB;
          s2 = s1\<lparr>requests := requests s1 @ [DownloadReq requestedSizeMB]\<rparr>
      in case outcome of
           DownloadThrew \<Rightarrow> s2\<lparr>download_status := ''Failed''\<rparr>
         | DownloadNotOk \<Rightarrow> s2\<lparr>download_status := ''Failed''\<rparr>
         | DownloadDone bytes ms \<Rightarrow>
             if bytes = 0 then s2\<lparr>download_status := ''Failed: Zero bytes received.''\<rparr>
             else let durationSeconds = ms / 1000;
                      speedMbps = js_div (real bytes * 8) (durationSeconds * 1024 * 1024)
                  in s2\<lparr>results := (results s2)\<lparr>download := Some speedMbps\<rparr>,
                         download_result := Fixed2 speedMbps,
                         download_status := ''Complete''\<rparr>)"

datatype upload_outcome = UploadThrew | UploadNotOk | UploadDone real

definition runUploadTest :: "int option \<Rightarrow> upload_outcome \<Rightarrow> page \<Rightarrow> page" where
  "runUploadTest input outcome s =
     (let s1 = s\<lparr>upload_status := ''Testing Upload...''\<rparr>;
          sizeMB = validateSize input MAX_SIZE_MB;
          sizeBytes = sizeMB * 1024 * 1024;
          s2 = s1\<lparr>requests := requests s1 @ [UploadReq sizeBytes]\<rparr>
      in case outcome of
           UploadThrew \<Rightarrow> s2\<lparr>upload_status := ''Failed''\<rparr>
         | UploadNotOk \<Rightarrow> s2\<lparr>upload_status := ''Failed''\<rparr>
         | UploadDone ms \<Rightarrow>
             let durationSeconds = ms / 1000;
                 speedMbps = js_div (real_of_int sizeBytes * 8) (durationSeconds * 1024 * 1024)
             in s2\<lparr>results := (results s2)\<lparr>upload := Some speedMbps\<rparr>,
                    upload_result := Fixed2 speedMbps,
                    upload_status := ''Complete''\<rparr>)"

subsection \<open>The handlers of the WebRTC test that end a run\<close>

definition runWebRTCTest :: "page \<Rightarrow> page" where
  "runWebRTCTest s = s\<lparr>jitter_status := ''Starting WebRTC connection...''\<rparr>"


text \<open>\<open>dc.onclose\<close>, with the value of \<open>packetCounter\<close> at that moment.\<close>

definition dc_onclose :: "nat \<Rightarrow> page \<Rightarrow> page" where
  "dc_onclose packetCounter s =
     finalizeTest True
       (if packetCounter < NUM_PACKETS
        then s\<lparr>jitter_status := ''WebRTC Disconnected before completion.''\<rparr>
        else s)"

text \<open>\<open>pc.oniceconnectionstatechange\<close> with the new state.\<close>

definition ice_state_change :: "string \<Rightarrow> page \<Rightarrow> page" where
  "ice_state_change st s =
     (if st = ''failed'' \<or> st = ''disconnected''
      then finalizeTest True (s\<lparr>jitter_status := ''WebRTC Failed or Disconnected.''\<rparr>)
      else s)"

text \<open>
  \<open>runAllTests\<close> up to the start of the WebRTC test: the reset, then latency, download
  and upload one after the other.
\<close>

definition runAllTests ::
  "(nat \<Rightarrow> ping_outcome) \<Rightarrow> int option \<Rightarrow> download_outcome \<Rightarrow> int option \<Rightarrow> upload_outcome
     \<Rightarrow> page \<Rightarrow> page" where
  "runAllTests pings dl_input dl ul_input ul s =
     runWebRTCTest
       (runUploadTest ul_input ul
          (runDownloadTest dl_input dl
             (runLatencyTest pings (reset_run s))))"

text \<open>A page on which no run has been made, used in the examples.\<close>

definition fresh_page :: page where
  "fresh_page =
     \<lparr>results = empty_results,
      latency_result = NA, download_result = NA, upload_result = NA,
      loss_result = NA, jitter_result = NA,
      latency_status = ''Ready'', download_status = ''Ready'',
      upload_status = ''Ready'', jitter_status = ''Ready'',
      start_btn_disabled = False, share_url = ShareEmpty,
      requests = [], pending = [], history = []\<rparr>"

definition is_save_request :: "request \<Rightarrow> bool" where
  "is_save_request r = (case r of SaveResultReq fr \<Rightarrow> True | _ \<Rightarrow> False)"

section \<open>The server: the download handler\<close>

subsection \<open>Reading the size parameter\<close>

text \<open>
  \<open>strconv.ParseInt(s, 10, 64)\<close> of the Go library, which the handler calls: an
  optional sign and decimal digits; the result is a value and an error.
\<close>

datatype num_error = ErrSyntax | ErrRange

definition digit_of :: "char \<Rightarrow> nat option" where
  "digit_of c =
     map_of [(CHR ''0'', 0), (CHR ''1'', 1), (CHR ''2'', 2), (CHR ''3'', 3), (CHR ''4'', 4),
             (CHR ''5'', 5), (CHR ''6'', 6), (CHR ''7'', 7), (CHR ''8'', 8), (CHR ''9'', 9)] c"

definition maxUint64 :: nat where
  "maxUint64 = 2 ^ 64 - 1"

fun ParseUint_loop :: "string \<Rightarrow> nat \<Rightarrow> nat \<times> num_error option" where
  "ParseUint_loop [] n = (n, None)"
| "ParseUint_loop (c # cs) n =
     (case digit_of c of
        None \<Rightarrow> (0, Some ErrSyntax)
      | Some d \<Rightarrow>
          if maxUint64 div 10 + 1 \<le> n then (maxUint64, Some ErrRange)
          else let n1 = n * 10 + d
               in if maxUint64 < n1 then (maxUint64, Some ErrRange)
                  else ParseUint_loop cs n1)"

definition ParseUint :: "string \<Rightarrow> nat \<times> num_error option" where
  "ParseUint s = (if s = [] then (0, Some ErrSyntax) else ParseUint_loop s 0)"

definition ParseInt :: "string \<Rightarrow> int \<times> num_error option" where
  "ParseInt s0 =
     (if s0 = [] then (0, Some ErrSyntax)
      else let neg = (hd s0 = CHR ''-'');
               s = (if hd s0 = CHR ''+'' \<or> hd s0 = CHR ''-'' then tl s0 else s0);
               (un, err) = ParseUint s
           in if err = Some ErrSyntax then (0, err)
              else if \<not> neg \<and> 2 ^ 63 \<le> un then (2 ^ 63 - 1, Some ErrRange)
              else if neg \<and> 2 ^ 63 < un then (- (2 ^ 63), Some ErrRange)
              else (if neg then - int un else int un, None))"

subsection \<open>Configuration\<close>

text \<open>The flags the handler reads; \<open>maxsize\<close> is an \<open>int64\<close>, \<open>chunksize\<close> an \<open>int\<close>.\<close>

record config =
  maxDownloadSize :: int
  downloadChunkSize :: int
  verbose :: bool

definition globalMaxDownloadSizeMB :: int where
  "globalMaxDownloadSizeMB = 1024"

text \<open>The validation at the start of \<open>main\<close>.\<close>

definition main_validation :: "config \<Rightarrow> config" where
  "main_validation cfg =
     (if globalMaxDownloadSizeMB < maxDownloadSize cfg
      then cfg\<lparr>maxDownloadSize := globalMaxDownloadSizeMB\<rparr>
      else cfg)"

definition default_config :: config where
  "default_config = \<lparr>maxDownloadSize = 100, downloadChunkSize = 1024 * 1024, verbose = False\<rparr>"

subsection \<open>Size of the download\<close>

text \<open>A product of two \<open>int64\<close> values wraps around.\<close>

definition wrap64 :: "int \<Rightarrow> int" where
  "wrap64 x = (x + 2 ^ 63) mod 2 ^ 64 - 2 ^ 63"

text \<open>Steps 1 and 2 of \<open>downloadHandler\<close>: the requested size in MB after the caps.\<close>

definition requestedSizeMB :: "config \<Rightarrow> string \<Rightarrow> int" where
  "requestedSizeMB cfg sizeParam =
     (let (v, err) = ParseInt sizeParam;
          r1 = (if err \<noteq> None \<or> v \<le> 0 then 10 else v);
          r2 = (if globalMaxDownloadSizeMB < r1 then globalMaxDownloadSizeMB else r1)
      in if maxDownloadSize cfg < r2 then maxDownloadSize cfg else r2)"

definition totalSize :: "config \<Rightarrow> string \<Rightarrow> int" where
  "totalSize cfg sizeParam =
     (let t = wrap64 (wrap64 (requestedSizeMB cfg sizeParam * 1024) * 1024)
      in if t < 1024 * 1024 then 1024 * 1024 else t)"

definition chunkSize :: "config \<Rightarrow> int" where
  "chunkSize cfg =
     (let c = downloadChunkSize cfg in if c \<le> 0 then 1024 * 1024 else c)"

subsection \<open>Streaming\<close>

text \<open>
  The loop \<open>for sentBytes < totalSize\<close>. \<open>write_ok n\<close> tells whether the write number
  \<open>n\<close> (from 0) succeeds. The result is the list of the lengths written, in order, and
  whether the stream was finished; a write of \<open>k\<close> bytes sends the first \<open>k\<close> bytes of
  the chunk. \<open>None\<close> stands for a loop that does not end, which needs a chunk size that
  is not positive.
\<close>

function stream_loop ::
  "(nat \<Rightarrow> bool) \<Rightarrow> int \<Rightarrow> int \<Rightarrow> int \<Rightarrow> int list \<Rightarrow> (int list \<times> bool) option" where
  "stream_loop write_ok tsize csize sentBytes ws =
     (if sentBytes < tsize then
        (if csize \<le> 0 then None
         else let bytesToWrite = (if tsize - sentBytes < csize then tsize - sentBytes else csize)
              in if \<not> write_ok (length ws) then Some (ws, False)
                 else stream_loop write_ok tsize csize (sentBytes + bytesToWrite)
                        (ws @ [bytesToWrite]))
      else Some (ws, True))"
  by pat_completeness auto
termination
  by (relation "measure (\<lambda>(write_ok, tsize, csize, sentBytes, ws). nat (tsize - sentBytes))")
     auto

declare stream_loop.simps [simp del]

record download_response =
  content_length :: int
  writes :: "int list"
  finished :: bool

definition downloadHandler ::
  "config \<Rightarrow> string \<Rightarrow> (nat \<Rightarrow> bool) \<Rightarrow> download_response option" where
  "downloadHandler cfg sizeParam write_ok =
     (let tsize = totalSize cfg sizeParam;
          csize = chunkSize cfg
      in case stream_loop write_ok tsize csize 0 [] of
           None \<Rightarrow> None
         | Some (ws, fin) \<Rightarrow> Some \<lparr>content_length = tsize, writes = ws, finished = fin\<rparr>)"

text \<open>
  The lengths of the writes of a stream of \<open>r\<close> bytes in chunks of \<open>c\<close>: the full
  chunks, then the rest if there is one.
\<close>

definition chunk_lengths :: "int \<Rightarrow> int \<Rightarrow> int list" where
  "chunk_lengths r c =
     replicate (nat (r div c)) c @ (if r mod c = 0 then [] else [r mod c])"

section \<open>The server: the result store\<close>

text \<open>A \<open>time.Time\<close>: an instant counted from the zero value of the type.\<close>

datatype time = Time int

definition zero_time :: time where
  "zero_time = Time 0"

record TestResult =
  Timestamp :: time
  DownloadSpeedMbps :: float64
  UploadSpeedMbps :: float64
  LatencyMs :: float64
  JitterMs :: float64
  PacketLossPercent :: float64

text \<open>The zero value \<open>TestResult{}\<close>.\<close>

definition zero_TestResult :: TestResult where
  "zero_TestResult =
     \<lparr>Timestamp = zero_time, DownloadSpeedMbps = Finite 0, UploadSpeedMbps = Finite 0,
      LatencyMs = Finite 0, JitterMs = Finite 0, PacketLossPercent = Finite 0\<rparr>"

subsection \<open>JSON\<close>

text \<open>
  A JSON object is modelled by its members in order, and a value by its kind: \<open>null\<close>,
  a number, a string that is the RFC 3339 form of an instant (\<open>JTime\<close>), another string,
  or anything else (a boolean, an array, an object). The text of a document, and with
  it the printing and reading of a number, is not modelled.
\<close>

datatype json_value = JNull | JNumber real | JTime time | JString string | JOther

type_synonym json_object = "(string \<times> json_value) list"

datatype error =
    UnsupportedValueError
  | UnmarshalTypeError
  | TimeParseError
  | SyntaxError
  | TxnError
  | ErrKeyNotFound
  | ResultNotFound string

fun is_finite :: "float64 \<Rightarrow> bool" where
  "is_finite (Finite x) = True"
| "is_finite NaN = False"
| "is_finite PosInf = False"
| "is_finite NegInf = False"

fun real_of_float64 :: "float64 \<Rightarrow> real" where
  "real_of_float64 (Finite x) = x"
| "real_of_float64 NaN = 0"
| "real_of_float64 PosInf = 0"
| "real_of_float64 NegInf = 0"

text \<open>
  \<open>json.Marshal\<close> of a \<open>TestResult\<close>: the members carry the names of the struct tags,
  in the order of the fields; a value that is not finite is refused.
\<close>

definition Marshal :: "TestResult \<Rightarrow> error + json_object" where
  "Marshal r =
     (if is_finite (DownloadSpeedMbps r) \<and> is_finite (UploadSpeedMbps r)
         \<and> is_finite (LatencyMs r) \<and> is_finite (JitterMs r)
         \<and> is_finite (PacketLossPercent r)
      then Inr [(''timestamp'', JTime (Timestamp r)),
                (''downloadSpeedMbps'', JNumber (real_of_float64 (DownloadSpeedMbps r))),
                (''uploadSpeedMbps'', JNumber (real_of_float64 (UploadSpeedMbps r))),
                (''latencyMs'', JNumber (real_of_float64 (LatencyMs r))),
                (''jitterMs'', JNumber (real_of_float64 (JitterMs r))),
                (''packetLossPercent'', JNumber (real_of_float64 (PacketLossPercent r)))]
      else Inl UnsupportedValueError)"

text \<open>
  A JSON value stored into a \<open>float64\<close> field: \<open>null\<close> leaves the field, a number sets
  it, anything else is a type error that leaves the field. A number too large for a
  \<open>float64\<close>, which the decoder refuses, is not told apart: the finite values of the
  model are all the reals.
\<close>

fun store_float :: "json_value \<Rightarrow> float64 \<Rightarrow> float64 \<times> error option" where
  "store_float JNull old = (old, None)"
| "store_float (JNumber x) old = (Finite x, None)"
| "store_float (JTime t) old = (old, Some UnmarshalTypeError)"
| "store_float (JString str) old = (old, Some UnmarshalTypeError)"
| "store_float JOther old = (old, Some UnmarshalTypeError)"

definition first_error :: "error option \<Rightarrow> error option \<Rightarrow> error option" where
  "first_error saved e = (case saved of None \<Rightarrow> e | Some x \<Rightarrow> Some x)"

text \<open>
  \<open>json.Unmarshal\<close> of an object into a \<open>TestResult\<close>, member by member: a member is
  matched to a field by the name of its tag, an unknown member is skipped, the first
  type error is kept while decoding goes on, and a timestamp that cannot be read ends
  the decoding. Only the exact match of names is modelled.
\<close>

fun Unmarshal_members ::
  "json_object \<Rightarrow> TestResult \<Rightarrow> error option \<Rightarrow> TestResult \<times> error option" where
  "Unmarshal_members [] r saved = (r, saved)"
| "Unmarshal_members ((k, v) # kvs) r saved =
     (if k = ''timestamp'' then
        (case v of
           JNull \<Rightarrow> Unmarshal_members kvs r saved
         | JTime t \<Rightarrow> Unmarshal_members kvs (r\<lparr>Timestamp := t\<rparr>) saved
         | JNumber x \<Rightarrow> (r, Some TimeParseError)
         | JString str \<Rightarrow> (r, Some TimeParseError)
         | JOther \<Rightarrow> (r, Some TimeParseError))
      else if k = ''downloadSpeedMbps'' then
        (let (x, e) = store_float v (DownloadSpeedMbps r)
         in Unmarshal_members kvs (r\<lparr>DownloadSpeedMbps := x\<rparr>) (first_error saved e))
      else if k = ''uploadSpeedMbps'' then
        (let (x, e) = store_float v (UploadSpeedMbps r)
         in Unmarshal_members kvs (r\<lparr>UploadSpeedMbps := x\<rparr>) (first_error saved e))
      else if k = ''latencyMs'' then
        (let (x, e) = store_float v (LatencyMs r)
         in Unmarshal_members kvs (r\<lparr>LatencyMs := x\<rparr>) (first_error saved e))
      else if k = ''jitterMs'' then
        (let (x, e) = store_float v (JitterMs r)
         in Unmarshal_members kvs (r\<lparr>JitterMs := x\<rparr>) (first_error saved e))
      else if k = ''packetLossPercent'' then
        (let (x, e) = store_float v (PacketLossPercent r)
         in Unmarshal_members kvs (r\<lparr>PacketLossPercent := x\<rparr>) (first_error saved e))
      else Unmarshal_members kvs r saved)"

definition Unmarshal :: "json_object \<Rightarrow> TestResult \<Rightarrow> TestResult \<times> error option" where
  "Unmarshal val r = Unmarshal_members val r None"

subsection \<open>BadgerStore\<close>

text \<open>The database: the value stored under each key.\<close>

type_synonym badger_db = "string \<rightharpoonup> json_object"

text \<open>
  \<open>Save\<close>. The UUID drawn, the reading of the clock and the error of the transaction
  (if any) are arguments. The result is the database, the id and the error.
\<close>

definition Save ::
  "badger_db \<Rightarrow> TestResult \<Rightarrow> string \<Rightarrow> time \<Rightarrow> error option
     \<Rightarrow> badger_db \<times> string \<times> error option" where
  "Save db result uuid now txn_err =
     (let rid = uuid;
          result1 = result\<lparr>Timestamp := now\<rparr>
      in case Marshal result1 of
           Inl err \<Rightarrow> (db, [], Some err)
         | Inr data \<Rightarrow>
             (case txn_err of
                None \<Rightarrow> (db(rid \<mapsto> data), rid, None)
              | Some err \<Rightarrow> (db, rid, Some err)))"

text \<open>
  \<open>Load\<close>: a missing key is reported as \<open>result not found\<close>; other failures of the
  read transaction are not modelled.
\<close>

definition Load :: "badger_db \<Rightarrow> string \<Rightarrow> TestResult \<times> error option" where
  "Load db rid =
     (case db rid of
        None \<Rightarrow> (zero_TestResult, Some (ResultNotFound rid))
      | Some val \<Rightarrow> Unmarshal val zero_TestResult)"

subsection \<open>The handlers of \<open>/save-result\<close> and \<open>/results/\<close>\<close>

text \<open>
  The body of a request as the JSON decoder sees it: not a JSON document (or longer
  than the limit of 1 MB), the document \<open>null\<close>, an object, or another document.
\<close>

datatype request_body = BodyInvalid | BodyNull | BodyObject json_object | BodyOther

datatype payload =
    ErrorText string
  | SavedJson string
  | ResultJson json_object
  | NoPayload

record http_response =
  status :: nat
  body :: payload

definition Decode :: "request_body \<Rightarrow> TestResult \<times> error option" where
  "Decode b =
     (case b of
        BodyInvalid \<Rightarrow> (zero_TestResult, Some SyntaxError)
      | BodyNull \<Rightarrow> (zero_TestResult, None)
      | BodyObject obj \<Rightarrow> Unmarshal obj zero_TestResult
      | BodyOther \<Rightarrow> (zero_TestResult, Some UnmarshalTypeError))"

definition saveResultHandler ::
  "badger_db \<Rightarrow> string \<Rightarrow> request_body \<Rightarrow> string \<Rightarrow> time \<Rightarrow> error option
     \<Rightarrow> badger_db \<times> http_response" where
  "saveResultHandler db http_method b uuid now txn_err =
     (if http_method \<noteq> ''POST''
      then (db, \<lparr>status = 405, body = ErrorText ''Only POST method is supported''\<rparr>)
      else let (result, err) = Decode b
           in if err \<noteq> None
              then (db, \<lparr>status = 400, body = ErrorText ''Invalid JSON result format''\<rparr>)
              else let (db1, rid, err1) = Save db result uuid now txn_err
                   in if err1 \<noteq> None
                      then (db1, \<lparr>status = 500, body = ErrorText ''Failed to save result''\<rparr>)
                      else (db1, \<lparr>status = 200, body = SavedJson rid\<rparr>))"

definition TrimPrefix :: "string \<Rightarrow> string \<Rightarrow> string" where
  "TrimPrefix s pre = (if take (length pre) s = pre then drop (length pre) s else s)"

definition loadResultHandler :: "badger_db \<Rightarrow> string \<Rightarrow> string \<Rightarrow> http_response" where
  "loadResultHandler db http_method path =
     (if http_method \<noteq> ''GET''
      then \<lparr>status = 405, body = ErrorText ''Only GET method is supported''\<rparr>
      else let rid = TrimPrefix path ''/results/''
           in if rid = [] then \<lparr>status = 400, body = ErrorText ''Missing result ID''\<rparr>
              else let (result, err) = Load db rid
                   in case err of
                        Some (ResultNotFound i) \<Rightarrow>
                          \<lparr>status = 404, body = ErrorText ''Result not found''\<rparr>
                      | Some e \<Rightarrow> \<lparr>status = 500, body = ErrorText ''Internal server error''\<rparr>
                      | None \<Rightarrow>
                          (case Marshal result of
                             Inr obj \<Rightarrow> \<lparr>status = 200, body = ResultJson obj\<rparr>
                           | Inl e \<Rightarrow> \<lparr>status = 200, body = NoPayload\<rparr>))"



text \<open>
  What the server decodes for a number the client posts: the number itself, or the zero
  value of the field when the client wrote \<open>null\<close>.
\<close>

definition finite_or_zero :: "number \<Rightarrow> float64" where
  "finite_or_zero v = (if is_finite v then v else Finite 0)"

section \<open>The server: the echo on the data channel\<close>

type_synonym byte = "8 word"

record DataChannelMessage =
  IsString :: bool
  Data :: "byte list"

text \<open>
  The data channel as the handler uses it: the payloads it has sent, in order, and the
  errors it has logged.
\<close>

record data_channel =
  sent :: "byte list list"
  logged :: "string list"

text \<open>\<open>dc.Send(data)\<close>: the payload goes out as it is, unless the channel reports an error.\<close>

definition Send :: "byte list \<Rightarrow> bool \<Rightarrow> data_channel \<Rightarrow> data_channel \<times> bool" where
  "Send data send_fails dc =
     (if send_fails then (dc, True) else (dc\<lparr>sent := sent dc @ [data]\<rparr>, False))"

text \<open>The callback of \<open>dc.OnMessage\<close>.\<close>

definition OnMessage :: "DataChannelMessage \<Rightarrow> bool \<Rightarrow> data_channel \<Rightarrow> data_channel" where
  "OnMessage msg send_fails dc =
     (let (dc1, err) = Send (Data msg) send_fails dc
      in if err then dc1\<lparr>logged := logged dc1 @ [''Error echoing data'']\<rparr> else dc1)"

text \<open>The messages of a session, each with the outcome of its \<open>Send\<close>, handled in order.\<close>

fun handle_messages :: "(DataChannelMessage \<times> bool) list \<Rightarrow> data_channel \<Rightarrow> data_channel" where
  "handle_messages [] dc = dc"
| "handle_messages ((msg, send_fails) # rest) dc = handle_messages rest (OnMessage msg send_fails dc)"

section \<open>Example values\<close>

text \<open>
  A run in which every sub-test before the WebRTC test succeeds: ten pings of 20 ms,
  10 MB down in one second and 10 MB up in two.
\<close>

definition example_run :: page where
  "example_run =
     runAllTests (\<lambda>k. PingOk 20) (Some 10) (DownloadDone 10485760 1000) (Some 10)
       (UploadDone 2000) fresh_page"

text \<open>Ten pings that all fail, and ten of which the third and the sixth succeed.\<close>

definition failing_pings :: "nat \<Rightarrow> ping_outcome" where
  "failing_pings k = PingThrew"

definition two_ok_pings :: "nat \<Rightarrow> ping_outcome" where
  "two_ok_pings k = (if k = 2 then PingOk 30 else if k = 5 then PingOk 50 else PingNotOk)"



text \<open>
  A record as a client submits it, the database after it was saved under \<open>id-1\<close> at the
  server time 99, and two request bodies that differ in the timestamp only.
\<close>

definition example_result :: TestResult where
  "example_result =
     \<lparr>Timestamp = Time 7, DownloadSpeedMbps = Finite 80, UploadSpeedMbps = Finite 40,
      LatencyMs = Finite 20, JitterMs = Finite 3, PacketLossPercent = Finite (1 / 2)\<rparr>"

definition example_db :: badger_db where
  "example_db =
     [''id-1'' \<mapsto>
        [(''timestamp'', JTime (Time 99)), (''downloadSpeedMbps'', JNumber 80),
         (''uploadSpeedMbps'', JNumber 40), (''latencyMs'', JNumber 20),
         (''jitterMs'', JNumber 3), (''packetLossPercent'', JNumber (1 / 2))]]"

definition example_body :: request_body where
  "example_body =
     BodyObject
       [(''timestamp'', JTime (Time 7)), (''downloadSpeedMbps'', JNumber 80),
        (''uploadSpeedMbps'', JNumber 40), (''latencyMs'', JNumber 20),
        (''jitterMs'', JNumber 3), (''packetLossPercent'', JNumber (1 / 2))]"

definition example_body_no_timestamp :: request_body where
  "example_body_no_timestamp =
     BodyObject
       [(''downloadSpeedMbps'', JNumber 80),
        (''uploadSpeedMbps'', JNumber 40), (''latencyMs'', JNumber 20),
        (''jitterMs'', JNumber 3), (''packetLossPercent'', JNumber (1 / 2))]"

text \<open>A data channel on which nothing was sent yet, a text message and a binary message.\<close>

definition example_channel :: data_channel where
  "example_channel = \<lparr>sent = [], logged = []\<rparr>"

definition example_message :: DataChannelMessage where
  "example_message = \<lparr>IsString = True, Data = [123, 34, 105, 100, 34, 58, 48, 125]\<rparr>"

definition example_message2 :: DataChannelMessage where
  "example_message2 = \<lparr>IsString = False, Data = [0, 255, 7]\<rparr>"

text \<open>
  A client that accepts every write; servers started with a small \<open>maxsize\<close>, with a
  chunk size of 3 MB and with a chunk size of 0.
\<close>

definition always_ok :: "nat \<Rightarrow> bool" where
  "always_ok n = True"

definition small_config :: config where
  "small_config = \<lparr>maxDownloadSize = 5, downloadChunkSize = 1024 * 1024, verbose = False\<rparr>"

definition three_mb_chunk_config :: config where
  "three_mb_chunk_config =
     \<lparr>maxDownloadSize = 100, downloadChunkSize = 3 * 1024 * 1024, verbose = False\<rparr>"

definition no_chunk_config :: config where
  "no_chunk_config = \<lparr>maxDownloadSize = 100, downloadChunkSize = 0, verbose = False\<rparr>"

definition zero_max_config :: config where
  "zero_max_config = \<lparr>maxDownloadSize = 0, downloadChunkSize = 1024 * 1024, verbose = False\<rparr>"


section \<open>Properties of the jitter and loss analyzer\<close>

lemma finalizeTest_results: "results (finalizeTest success s) = results s"
  by (simp add: finalizeTest_def Let_def)

lemma calculateJitterLoss_packetLoss:
  "packetLoss (results (calculateJitterLoss rtts n s)) = Some (lossPercent rtts n)"
  by (simp add: calculateJitterLoss_def Let_def finalizeTest_results)

lemma calculateJitterLoss_jitter:
  "jitter (results (calculateJitterLoss rtts n s)) = Some (averageJitter rtts)"
  by (simp add: calculateJitterLoss_def Let_def finalizeTest_results)

lemma lossPercent_pos:
  assumes "1 \<le> D"
  shows "lossPercent rtts D = Finite ((real D - real (length rtts)) / real D * 100)"
  using assms by (simp add: lossPercent_def js_div_def Let_def)

text \<open>
  Claim C1. Whenever \<open>calculateJitterLoss\<close> is called with \<open>D \<ge> 1\<close> packets sent and
  a list of \<open>R \<le> D\<close> round-trip times, the packet loss it stores is
  \<open>(D - R) / D * 100\<close>, which is 0 when \<open>R = D\<close>.
\<close>

theorem C1_loss_percent:
  assumes "1 \<le> D" and "length rtts \<le> D"
  shows "packetLoss (results (calculateJitterLoss rtts D s))
           = Some (Finite ((real D - real (length rtts)) / real D * 100))
         \<and> (length rtts = D \<longrightarrow>
              packetLoss (results (calculateJitterLoss rtts D s)) = Some (Finite 0))"
  using assms by (simp add: calculateJitterLoss_packetLoss lossPercent_pos)

theorem C1_loss_percent_witness:
  "(1::nat) \<le> 4 \<and> length [10, 12, 11 :: real] \<le> 4
   \<and> packetLoss (results (calculateJitterLoss [10, 12, 11] 4 fresh_page)) = Some (Finite 25)
   \<and> packetLoss (results (calculateJitterLoss [10, 12, 11, 13] 4 fresh_page)) = Some (Finite 0)"
  using C1_loss_percent [of 4 "[10, 12, 11]" fresh_page]
        C1_loss_percent [of 4 "[10, 12, 11, 13]" fresh_page]
  by simp

text \<open>
  The loop adds up the absolute differences of neighbours, provided \<open>previousRTT\<close> holds
  the sample before the index.
\<close>

lemma jitter_loop_sum:
  assumes "1 \<le> i" and "i \<le> length rtts" and "previousRTT = rtts ! (i - 1)"
  shows "jitter_loop rtts i s previousRTT
           = s + (\<Sum>k = i..<length rtts. \<bar>rtts ! k - rtts ! (k - 1)\<bar>)"
  using assms
proof (induction rtts i s previousRTT rule: jitter_loop.induct)
  case (1 rtts i s p)
  show ?case
  proof (cases "i < length rtts")
    case True
    have "jitter_loop rtts i s p = jitter_loop rtts (i + 1) (s + \<bar>rtts ! i - p\<bar>) (rtts ! i)"
      using True by (subst jitter_loop.simps) simp
    also have "\<dots> = (s + \<bar>rtts ! i - p\<bar>)
                       + (\<Sum>k = i + 1..<length rtts. \<bar>rtts ! k - rtts ! (k - 1)\<bar>)"
      using "1.IH" [OF True] True "1.prems" by simp
    also have "\<dots> = s + (\<Sum>k = i..<length rtts. \<bar>rtts ! k - rtts ! (k - 1)\<bar>)"
      using True "1.prems" by (simp add: sum.atLeast_Suc_lessThan)
    finally show ?thesis .
  next
    case False
    with "1.prems" have "i = length rtts" by simp
    then show ?thesis by (subst jitter_loop.simps) simp
  qed
qed

lemma averageJitter_few: "length rtts < 2 \<Longrightarrow> averageJitter rtts = Finite 0"
  by (simp add: averageJitter_def Let_def)

lemma averageJitter_mean:
  assumes "2 \<le> length rtts"
  shows "averageJitter rtts
           = Finite ((\<Sum>i = 1..<length rtts. \<bar>rtts ! i - rtts ! (i - 1)\<bar>)
                       / (real (length rtts) - 1))"
proof -
  have "jitter_loop rtts 1 0 (rtts ! 0)
          = 0 + (\<Sum>k = 1..<length rtts. \<bar>rtts ! k - rtts ! (k - 1)\<bar>)"
    using assms by (intro jitter_loop_sum) simp_all
  moreover have "rtts \<noteq> []"
    using assms by auto
  ultimately show ?thesis
    using assms by (simp add: averageJitter_def Let_def js_div_def)
qed

text \<open>
  Claim C2. The jitter that \<open>calculateJitterLoss\<close> stores is 0 when fewer than two
  round-trip times were received, and otherwise the mean of \<open>|rtts[i] - rtts[i-1]|\<close> over
  the neighbours in the order of arrival; for \<open>[100, 120, 90]\<close> it is
  \<open>(|120 - 100| + |90 - 120|) / 2 = 25\<close>.
\<close>

theorem C2_jitter:
  "(length rtts < 2 \<longrightarrow>
      jitter (results (calculateJitterLoss rtts n s)) = Some (Finite 0))
   \<and> (2 \<le> length rtts \<longrightarrow>
      jitter (results (calculateJitterLoss rtts n s))
        = Some (Finite ((\<Sum>i = 1..<length rtts. \<bar>rtts ! i - rtts ! (i - 1)\<bar>)
                          / (real (length rtts) - 1))))
   \<and> jitter (results (calculateJitterLoss [100, 120, 90] n s))
        = Some (Finite ((\<bar>120 - 100\<bar> + \<bar>90 - 120\<bar>) / 2))
   \<and> (\<bar>120 - 100\<bar> + \<bar>90 - 120\<bar>) / 2 = (25 :: real)"
proof -
  have "averageJitter [100, 120, 90] = Finite ((\<bar>120 - 100\<bar> + \<bar>90 - 120\<bar>) / 2)"
    using averageJitter_mean [of "[100, 120, 90]"]
    by (simp add: sum.atLeast_Suc_lessThan)
  then show ?thesis
    by (simp add: calculateJitterLoss_jitter averageJitter_few averageJitter_mean)
qed

theorem C2_jitter_witness:
  "length [100 :: real] < 2
   \<and> jitter (results (calculateJitterLoss [100] 3 fresh_page)) = Some (Finite 0)
   \<and> 2 \<le> length [100, 120, 90 :: real]
   \<and> jitter (results (calculateJitterLoss [100, 120, 90] 3 fresh_page)) = Some (Finite 25)"
  using C2_jitter [of "[100]" 3 fresh_page] C2_jitter [of "[100, 120, 90]" 3 fresh_page]
  by (simp add: sum.atLeast_Suc_lessThan)

section \<open>Properties of the latency probe\<close>

lemma successful_rtts_step:
  "i < n \<Longrightarrow> successful_rtts pings i n
     = (case pings i of PingOk d \<Rightarrow> [d] | PingNotOk \<Rightarrow> [] | PingThrew \<Rightarrow> [])
       @ successful_rtts pings (i + 1) n"
  by (simp add: successful_rtts_def upt_conv_Cons)

lemma latency_loop_result:
  assumes "i \<le> n"
  shows "latency_loop pings n i (ls, rs)
           = (ls @ successful_rtts pings i n, rs @ replicate (n - i) LatencyReq)"
  using assms
proof (induction pings n i "(ls, rs)" arbitrary: ls rs rule: latency_loop.induct)
  case (1 pings numPings i latencies reqs)
  show ?case
  proof (cases "i < numPings")
    case True
    have rep: "replicate (numPings - i) LatencyReq
                 = LatencyReq # replicate (numPings - (i + 1)) LatencyReq"
      using True by (cases "numPings - i") (simp_all add: Suc_diff_Suc)
    show ?thesis
      using True "1.hyps"
      by (subst latency_loop.simps)
         (simp add: successful_rtts_step rep split: ping_outcome.splits)
  next
    case False
    with "1.prems" have "i = numPings" by simp
    then show ?thesis
      by (subst latency_loop.simps) (simp add: successful_rtts_def)
  qed
qed

lemma successful_rtts_empty:
  "successful_rtts pings i n = [] \<longleftrightarrow> (\<forall>k. i \<le> k \<and> k < n \<longrightarrow> (\<forall>d. pings k \<noteq> PingOk d))"
  by (auto simp: successful_rtts_def split: ping_outcome.splits)

lemma foldl_plus_sum_list: "foldl (+) a xs = a + sum_list (xs :: real list)"
  by (induction xs arbitrary: a) simp_all

lemma runLatencyTest_requests:
  "requests (runLatencyTest pings s) = requests s @ replicate 10 LatencyReq"
  by (simp add: runLatencyTest_def latency_loop_result Let_def)

lemma runLatencyTest_failed:
  assumes "successful_rtts pings 0 10 = []"
  shows "runLatencyTest pings s
           = s\<lparr>latency_status := ''Failed to measure.'',
                requests := requests s @ replicate 10 LatencyReq\<rparr>"
  using assms by (simp add: runLatencyTest_def latency_loop_result Let_def)

lemma runLatencyTest_measured:
  assumes "successful_rtts pings 0 10 \<noteq> []"
  shows "latency (results (runLatencyTest pings s))
           = Some (Finite (sum_list (successful_rtts pings 0 10)
                             / real (length (successful_rtts pings 0 10))))"
  using assms
  by (simp add: runLatencyTest_def latency_loop_result Let_def js_div_def foldl_plus_sum_list)

text \<open>
  Claim C6. The latency probe makes 10 requests. When none of the ten trips succeeds,
  \<open>results.latency\<close> and the latency element are left as they were (not measured after
  the reset of \<open>runAllTests\<close>, so neither zero nor NaN) and the status reports the
  failure; when at least one succeeds, \<open>results.latency\<close> is the arithmetic mean of the
  round-trip times of the successful trips.
\<close>

theorem C6_latency_probe:
  "requests (runLatencyTest pings s) = requests s @ replicate 10 LatencyReq
   \<and> ((\<forall>i<10. \<forall>d. pings i \<noteq> PingOk d) \<longrightarrow>
        latency (results (runLatencyTest pings s)) = latency (results s)
        \<and> latency_result (runLatencyTest pings s) = latency_result s
        \<and> latency_status (runLatencyTest pings s) = ''Failed to measure.''
        \<and> latency (results (runLatencyTest pings (reset_run s))) = None
        \<and> latency_result (runLatencyTest pings (reset_run s)) = NA)
   \<and> ((\<exists>i<10. \<exists>d. pings i = PingOk d) \<longrightarrow>
        latency (results (runLatencyTest pings s))
          = Some (Finite (sum_list (successful_rtts pings 0 10)
                            / real (length (successful_rtts pings 0 10)))))"
proof -
  have none: "successful_rtts pings 0 10 = []" if "\<forall>i<10. \<forall>d. pings i \<noteq> PingOk d"
    using that by (simp add: successful_rtts_empty)
  have some: "successful_rtts pings 0 10 \<noteq> []" if "\<exists>i<10. \<exists>d. pings i = PingOk d"
    using that by (auto simp: successful_rtts_empty)
  show ?thesis
    using none some
    by (auto simp: runLatencyTest_requests runLatencyTest_failed runLatencyTest_measured
                   reset_run_def empty_results_def)
qed

theorem C6_latency_probe_witness:
  "successful_rtts failing_pings 0 10 = []
   \<and> latency (results (runLatencyTest failing_pings fresh_page)) = None
   \<and> latency_status (runLatencyTest failing_pings fresh_page) = ''Failed to measure.''
   \<and> requests (runLatencyTest failing_pings fresh_page) = replicate 10 LatencyReq
   \<and> two_ok_pings 2 = PingOk 30 \<and> two_ok_pings 5 = PingOk 50
   \<and> successful_rtts two_ok_pings 0 10 = [30, 50]
   \<and> latency (results (runLatencyTest two_ok_pings fresh_page)) = Some (Finite 40)"
proof -
  have ex: "\<exists>i<10. \<exists>d. two_ok_pings i = PingOk d"
    by (rule exI [of _ 2]) (simp add: two_ok_pings_def)
  have ok: "successful_rtts two_ok_pings 0 10 = [30, 50]"
    by (simp add: successful_rtts_def two_ok_pings_def upt_conv_Cons)
  have fresh: "latency (results fresh_page) = None" "requests fresh_page = []"
    by (simp_all add: fresh_page_def empty_results_def)
  have none: "\<forall>i<10. \<forall>d. failing_pings i \<noteq> PingOk d"
    by (simp add: failing_pings_def)
  have empty: "successful_rtts failing_pings 0 10 = []"
    using none by (simp add: successful_rtts_empty)
  have failed: "latency (results (runLatencyTest failing_pings fresh_page)) = None
      \<and> latency_status (runLatencyTest failing_pings fresh_page) = ''Failed to measure.''
      \<and> requests (runLatencyTest failing_pings fresh_page) = replicate 10 LatencyReq"
    using C6_latency_probe [of failing_pings fresh_page] none fresh by simp
  have "latency (results (runLatencyTest two_ok_pings fresh_page))
          = Some (Finite (sum_list (successful_rtts two_ok_pings 0 10)
                            / real (length (successful_rtts two_ok_pings 0 10))))"
    using C6_latency_probe [of two_ok_pings fresh_page] ex by blast
  then have measured: "latency (results (runLatencyTest two_ok_pings fresh_page)) = Some (Finite 40)"
    by (simp add: ok)
  show ?thesis
    using empty failed ok measured by (simp add: two_ok_pings_def)
qed

section \<open>Properties of the finalization\<close>

lemma build_finalResults_share_url [simp]:
  "build_finalResults (s\<lparr>share_url := x\<rparr>) = build_finalResults s"
  by (simp add: build_finalResults_def)

lemma finalizeTest_True:
  "finalizeTest True s
     = s\<lparr>share_url := ShareEmpty,
          requests := requests s @ [SaveResultReq (build_finalResults s)],
          pending := pending s @ [build_finalResults s]\<rparr>"
  by (simp add: finalizeTest_def Let_def)

lemma is_save_request_simps [simp]:
  "is_save_request (SaveResultReq fr)" "\<not> is_save_request LatencyReq"
  "\<not> is_save_request (DownloadReq a)" "\<not> is_save_request (UploadReq b)"
  "\<not> is_save_request SignalingReq"
  by (simp_all add: is_save_request_def)

lemma finalizeTest_saves:
  "length (filter is_save_request (requests (finalizeTest True s)))
     = Suc (length (filter is_save_request (requests s)))"
  by (simp add: finalizeTest_True)

lemma save_settled_requests [simp]: "requests (save_settled outcome now s) = requests s"
  by (simp add: save_settled_def saveHistory_def Let_def split: list.splits save_outcome.splits)

lemma calculateJitterLoss_saves:
  "length (filter is_save_request (requests (calculateJitterLoss rtts n s)))
     = Suc (length (filter is_save_request (requests s)))"
  by (simp add: calculateJitterLoss_def Let_def finalizeTest_saves)

lemma dc_onclose_saves:
  "length (filter is_save_request (requests (dc_onclose n s)))
     = Suc (length (filter is_save_request (requests s)))"
  by (simp add: dc_onclose_def finalizeTest_saves)

lemma completion_then_close_saves_twice:
  "length (filter is_save_request
      (requests (save_settled o2 t2 (save_settled o1 t1
         (dc_onclose n (calculateJitterLoss rtts n s))))))
     = length (filter is_save_request (requests s)) + 2"
  by (simp add: dc_onclose_saves calculateJitterLoss_saves)

lemma close_after_first_settled_saves_twice:
  "length (filter is_save_request
      (requests (save_settled o2 t2 (dc_onclose n (save_settled o1 t1
         (calculateJitterLoss rtts n s))))))
     = length (filter is_save_request (requests s)) + 2"
  by (simp add: dc_onclose_saves calculateJitterLoss_saves)

lemma example_run_requests:
  "requests example_run = replicate 10 LatencyReq @ [DownloadReq 10, UploadReq 10485760]"
  by (simp add: example_run_def runAllTests_def runWebRTCTest_def runUploadTest_def
        runDownloadTest_def runLatencyTest_requests reset_run_def fresh_page_def
        validateSize_def MAX_SIZE_MB_def Let_def)

lemma example_ok: "successful_rtts (\<lambda>k. PingOk 20) 0 10 = [20, 20, 20, 20, 20, 20, 20, 20, 20, 20]"
  by (simp add: successful_rtts_def upt_conv_Cons)

lemma example_run_latency: "latency (results example_run) = Some (Finite 20)"
  using runLatencyTest_measured [of "\<lambda>k. PingOk 20" "reset_run fresh_page"]
  by (simp add: example_run_def runAllTests_def runWebRTCTest_def runUploadTest_def
        runDownloadTest_def example_ok Let_def)


lemma example_run_page:
  "start_btn_disabled example_run" "history example_run = []" "pending example_run = []"
  by (simp_all add: example_run_def runAllTests_def runWebRTCTest_def runUploadTest_def
        runDownloadTest_def runLatencyTest_def reset_run_def fresh_page_def Let_def
        split: prod.splits)

lemma save_settled_first:
  assumes "pending s = fr # rest" and "start_btn_disabled s" and "truthy (latency (results s))"
  shows "history (save_settled outcome now s) = take MAX_HISTORY_ITEMS
            (\<lparr>h_timestamp = now,
              h_latency = history_text (latencyMs fr),
              h_download = history_text (downloadSpeedMbps fr),
              h_upload = history_text (uploadSpeedMbps fr),
              h_jitter = history_text (jitterMs fr),
              h_packetLoss = history_text (packetLossPercent fr)\<rparr> # history s)"
    and "\<not> start_btn_disabled (save_settled outcome now s)"
    and "pending (save_settled outcome now s) = rest"
  using assms
  by (simp_all add: save_settled_def saveHistory_def Let_def split: save_outcome.splits)

lemma save_settled_released:
  assumes "\<not> start_btn_disabled s"
  shows "history (save_settled outcome now s) = history s"
    and "\<not> start_btn_disabled (save_settled outcome now s)"
  using assms
  by (simp_all add: save_settled_def Let_def split: list.splits save_outcome.splits)

lemma finalizeTest_frame:
  "start_btn_disabled (finalizeTest True s) = start_btn_disabled s"
  "history (finalizeTest True s) = history s"
  "pending (finalizeTest True s) = pending s @ [build_finalResults s]"
  by (simp_all add: finalizeTest_True)

lemma calculateJitterLoss_frame:
  "start_btn_disabled (calculateJitterLoss rtts n s) = start_btn_disabled s"
  "history (calculateJitterLoss rtts n s) = history s"
  "latency (results (calculateJitterLoss rtts n s)) = latency (results s)"
  "\<exists>fr. pending (calculateJitterLoss rtts n s) = pending s @ [fr]"
  by (simp_all add: calculateJitterLoss_def Let_def finalizeTest_True)

lemma dc_onclose_frame:
  "start_btn_disabled (dc_onclose n s) = start_btn_disabled s"
  "history (dc_onclose n s) = history s"
  "results (dc_onclose n s) = results s"
  "\<exists>fr. pending (dc_onclose n s) = pending s @ [fr]"
  by (simp_all add: dc_onclose_def finalizeTest_True)

text \<open>
  Claim C3 says that a run finalized twice in quick succession, by the completion path
  and by the close handler of the data channel, is submitted to \<open>/save-result\<close> once
  and enters the history once. On the code the history is stored once, but every call of
  \<open>finalizeTest\<close> posts the record: after the completion of the example run and the
  close of its channel two records have been posted and one history entry stored.
\<close>

theorem C3_double_finalization:
  "length (filter is_save_request
      (requests (save_settled (SavedId ''b'') ''t2'' (save_settled (SavedId ''a'') ''t1''
         (dc_onclose 250 (calculateJitterLoss [30, 34, 32] 250 example_run)))))) = 2
   \<and> length (history (save_settled (SavedId ''b'') ''t2'' (save_settled (SavedId ''a'') ''t1''
         (dc_onclose 250 (calculateJitterLoss [30, 34, 32] 250 example_run))))) = 1"
proof -
  let ?s1 = "calculateJitterLoss [30, 34, 32] 250 example_run"
  let ?s2 = "dc_onclose 250 ?s1"
  let ?s3 = "save_settled (SavedId ''a'') ''t1'' ?s2"
  let ?s4 = "save_settled (SavedId ''b'') ''t2'' ?s3"
  have "length (filter is_save_request (requests ?s4))
          = length (filter is_save_request (requests example_run)) + 2"
    by (rule completion_then_close_saves_twice)
  then have posts: "length (filter is_save_request (requests ?s4)) = 2"
    by (simp add: example_run_requests)
  obtain fr1 where p1: "pending ?s1 = [fr1]"
    using calculateJitterLoss_frame(4) [of "[30, 34, 32]" 250 example_run]
    by (auto simp: example_run_page)
  obtain fr2 where p2: "pending ?s2 = fr1 # [fr2]"
    using dc_onclose_frame(4) [of 250 ?s1] p1 by auto
  have dis: "start_btn_disabled ?s2"
    by (simp add: dc_onclose_frame calculateJitterLoss_frame example_run_page)
  have lat: "truthy (latency (results ?s2))"
    by (simp add: dc_onclose_frame calculateJitterLoss_frame example_run_latency)
  have h2: "history ?s2 = []"
    by (simp add: dc_onclose_frame calculateJitterLoss_frame example_run_page)
  have h3: "length (history ?s3) = 1"
    using save_settled_first(1) [OF p2 dis lat, of "SavedId ''a''" "''t1''"] h2
    by (simp add: MAX_HISTORY_ITEMS_def)
  have rel: "\<not> start_btn_disabled ?s3"
    using save_settled_first(2) [OF p2 dis lat] .
  have "history ?s4 = history ?s3"
    using save_settled_released(1) [OF rel] .
  with h3 posts show ?thesis by simp
qed

section \<open>Properties of a run with failed sub-tests\<close>

lemma or_zero_NaN [simp]: "or_zero NaN = Finite 0"
  by (simp add: or_zero_def)


















section \<open>Properties of the result store\<close>

lemma Finite_real_of_float64: "is_finite x \<Longrightarrow> Finite (real_of_float64 x) = x"
  by (cases x) simp_all

lemma Unmarshal_Marshal:
  assumes "Marshal r = Inr data"
  shows "Unmarshal data r0 = (r, None)"
proof -
  have fin: "is_finite (DownloadSpeedMbps r)" "is_finite (UploadSpeedMbps r)"
    "is_finite (LatencyMs r)" "is_finite (JitterMs r)" "is_finite (PacketLossPercent r)"
    using assms by (simp_all add: Marshal_def split: if_splits)
  have data: "data = [(''timestamp'', JTime (Timestamp r)),
                (''downloadSpeedMbps'', JNumber (real_of_float64 (DownloadSpeedMbps r))),
                (''uploadSpeedMbps'', JNumber (real_of_float64 (UploadSpeedMbps r))),
                (''latencyMs'', JNumber (real_of_float64 (LatencyMs r))),
                (''jitterMs'', JNumber (real_of_float64 (JitterMs r))),
                (''packetLossPercent'', JNumber (real_of_float64 (PacketLossPercent r)))]"
    using assms by (simp add: Marshal_def split: if_splits)
  show ?thesis
    unfolding data Unmarshal_def
    by (cases r0) (simp add: first_error_def Finite_real_of_float64 fin)
qed

lemma Marshal_timestamp:
  "Marshal r = Inr data \<Longrightarrow> map_of data ''timestamp'' = Some (JTime (Timestamp r))"
  by (auto simp: Marshal_def split: if_splits)

lemma Save_ok:
  assumes "Save db result uuid now txn_err = (db1, rid, None)"
  shows "rid = uuid" and "txn_err = None"
    and "\<exists>data. Marshal (result\<lparr>Timestamp := now\<rparr>) = Inr data \<and> db1 = db(uuid \<mapsto> data)"
  using assms
  by (auto simp: Save_def Let_def split: sum.splits option.splits)

lemma Load_after_Save:
  assumes "Save db result uuid now txn_err = (db1, rid, None)"
  shows "Load db1 rid = (result\<lparr>Timestamp := now\<rparr>, None)"
proof -
  obtain data where m: "Marshal (result\<lparr>Timestamp := now\<rparr>) = Inr data"
    and d: "db1 = db(uuid \<mapsto> data)"
    using Save_ok(3) [OF assms] by blast
  have "rid = uuid" using Save_ok(1) [OF assms] .
  then show ?thesis
    using d Unmarshal_Marshal [OF m] by (simp add: Load_def)
qed

lemma Save_other_key:
  assumes "uuid2 \<noteq> rid"
  shows "Load (fst (Save db1 r2 uuid2 now2 e2)) rid = Load db1 rid"
  using assms by (simp add: Save_def Load_def Let_def split: sum.splits option.splits)

text \<open>
  Claim C8. When \<open>Save\<close> has stored a record and returned its id without an error,
  \<open>Load\<close> of that id succeeds and returns the five measurement values that were
  saved, also after further records have been saved under other ids. (The values are
  compared as numbers: the text of the JSON document is not modelled.)
\<close>

theorem C8_save_load_roundtrip:
  assumes "Save db result uuid now txn_err = (db1, rid, None)"
  shows "snd (Load db1 rid) = None
         \<and> DownloadSpeedMbps (fst (Load db1 rid)) = DownloadSpeedMbps result
         \<and> UploadSpeedMbps (fst (Load db1 rid)) = UploadSpeedMbps result
         \<and> LatencyMs (fst (Load db1 rid)) = LatencyMs result
         \<and> JitterMs (fst (Load db1 rid)) = JitterMs result
         \<and> PacketLossPercent (fst (Load db1 rid)) = PacketLossPercent result
         \<and> (\<forall>r2 uuid2 now2 e2. uuid2 \<noteq> rid \<longrightarrow>
               Load (fst (Save db1 r2 uuid2 now2 e2)) rid = Load db1 rid)"
  using Load_after_Save [OF assms] by (simp add: Save_other_key)

lemma example_Save:
  "Save Map.empty example_result ''id-1'' (Time 99) None = (example_db, ''id-1'', None)"
  by (simp add: Save_def Marshal_def example_result_def example_db_def Let_def)

theorem C8_save_load_roundtrip_witness:
  "Save Map.empty example_result ''id-1'' (Time 99) None = (example_db, ''id-1'', None)
   \<and> snd (Load example_db ''id-1'') = None
   \<and> DownloadSpeedMbps (fst (Load example_db ''id-1'')) = Finite 80
   \<and> UploadSpeedMbps (fst (Load example_db ''id-1'')) = Finite 40
   \<and> LatencyMs (fst (Load example_db ''id-1'')) = Finite 20
   \<and> JitterMs (fst (Load example_db ''id-1'')) = Finite 3
   \<and> PacketLossPercent (fst (Load example_db ''id-1'')) = Finite (1 / 2)
   \<and> ''id-2'' \<noteq> ''id-1''
   \<and> Load (fst (Save example_db example_result ''id-2'' (Time 100) None)) ''id-1''
       = Load example_db ''id-1''"
proof -
  have fields: "DownloadSpeedMbps example_result = Finite 80"
    "UploadSpeedMbps example_result = Finite 40" "LatencyMs example_result = Finite 20"
    "JitterMs example_result = Finite 3" "PacketLossPercent example_result = Finite (1 / 2)"
    by (simp_all add: example_result_def)
  have ne: "''id-2'' \<noteq> ''id-1''" by simp
  show ?thesis
    using C8_save_load_roundtrip [OF example_Save] example_Save fields ne by metis
qed

lemma saveResultHandler_timestamp_irrelevant:
  assumes "Decode b1 = (r, None)" and "Decode b2 = (r\<lparr>Timestamp := t\<rparr>, None)"
  shows "saveResultHandler db http_method b2 uuid now txn_err
           = saveResultHandler db http_method b1 uuid now txn_err"
  using assms by (simp add: saveResultHandler_def Save_def Let_def)

text \<open>
  Claim C10. \<open>Save\<close> replaces the timestamp of the submitted record by the time of
  the server before it persists the record: what is stored and returned does not depend
  on the timestamp the client sent, the stored document carries the server's time, and
  the five measurement values are those submitted.
\<close>

theorem C10_timestamp_overwritten:
  "Save db (result\<lparr>Timestamp := client_time\<rparr>) uuid now txn_err
     = Save db result uuid now txn_err
   \<and> (Save db result uuid now txn_err = (db1, rid, None) \<longrightarrow>
        (\<exists>data. db1 rid = Some data \<and> map_of data ''timestamp'' = Some (JTime now))
        \<and> Load db1 rid = (result\<lparr>Timestamp := now\<rparr>, None))
   \<and> (Decode b1 = (result, None) \<and> Decode b2 = (result\<lparr>Timestamp := client_time\<rparr>, None) \<longrightarrow>
        saveResultHandler db http_method b2 uuid now txn_err
          = saveResultHandler db http_method b1 uuid now txn_err)"
proof -
  have a: "Save db (result\<lparr>Timestamp := client_time\<rparr>) uuid now txn_err
             = Save db result uuid now txn_err"
    by (simp add: Save_def Let_def)
  have b: "(\<exists>data. db1 rid = Some data \<and> map_of data ''timestamp'' = Some (JTime now))
           \<and> Load db1 rid = (result\<lparr>Timestamp := now\<rparr>, None)"
    if ok: "Save db result uuid now txn_err = (db1, rid, None)"
  proof -
    obtain data where m: "Marshal (result\<lparr>Timestamp := now\<rparr>) = Inr data"
      and d: "db1 = db(uuid \<mapsto> data)"
      using Save_ok(3) [OF ok] by blast
    have "rid = uuid" using Save_ok(1) [OF ok] .
    then have "db1 rid = Some data" using d by simp
    moreover have "map_of data ''timestamp'' = Some (JTime now)"
      using Marshal_timestamp [OF m] by simp
    ultimately show ?thesis
      using Load_after_Save [OF ok] by blast
  qed
  show ?thesis
    using a b saveResultHandler_timestamp_irrelevant by blast
qed

lemma example_body_Decode:
  "Decode example_body = (example_result, None)"
  "Decode example_body_no_timestamp = (example_result\<lparr>Timestamp := zero_time\<rparr>, None)"
  by (simp_all add: Decode_def Unmarshal_def example_body_def example_body_no_timestamp_def
        example_result_def zero_TestResult_def first_error_def)

theorem C10_timestamp_overwritten_witness:
  "Save Map.empty example_result ''id-1'' (Time 99) None = (example_db, ''id-1'', None)
   \<and> Timestamp example_result = Time 7
   \<and> Timestamp (fst (Load example_db ''id-1'')) = Time 99
   \<and> Decode example_body = (example_result, None)
   \<and> Decode example_body_no_timestamp = (example_result\<lparr>Timestamp := zero_time\<rparr>, None)
   \<and> saveResultHandler Map.empty ''POST'' example_body_no_timestamp ''id-1'' (Time 99) None
       = saveResultHandler Map.empty ''POST'' example_body ''id-1'' (Time 99) None"
proof -
  have "Load example_db ''id-1'' = (example_result\<lparr>Timestamp := Time 99\<rparr>, None)"
    using C10_timestamp_overwritten
            [where db = Map.empty and result = example_result and uuid = "''id-1''"
               and now = "Time 99" and txn_err = None and ?db1.0 = example_db
               and rid = "''id-1''"]
          example_Save
    by blast
  then have ts: "Timestamp (fst (Load example_db ''id-1'')) = Time 99"
    by simp
  have same: "saveResultHandler Map.empty ''POST'' example_body_no_timestamp ''id-1'' (Time 99) None
       = saveResultHandler Map.empty ''POST'' example_body ''id-1'' (Time 99) None"
    using C10_timestamp_overwritten
            [where db = Map.empty and result = example_result and client_time = zero_time
               and uuid = "''id-1''" and now = "Time 99" and txn_err = None
               and ?b1.0 = example_body and ?b2.0 = example_body_no_timestamp
               and http_method = "''POST''"]
          example_body_Decode
    by blast
  have "Timestamp example_result = Time 7"
    by (simp add: example_result_def)
  then show ?thesis
    using example_Save ts example_body_Decode same by blast
qed




section \<open>The example runs with failed sub-tests\<close>




section \<open>Properties of the echo\<close>

lemma OnMessage_sent:
  "sent (OnMessage msg send_fails dc) = (if send_fails then sent dc else sent dc @ [Data msg])"
  by (simp add: OnMessage_def Send_def)

lemma handle_messages_sent:
  "sent (handle_messages evs dc)
     = sent dc @ map (\<lambda>(msg, send_fails). Data msg) (filter (\<lambda>(msg, send_fails). \<not> send_fails) evs)"
  by (induction evs arbitrary: dc) (auto simp: OnMessage_sent)

text \<open>
  Claim C9. For every message received on the data channel the handler hands to
  \<open>Send\<close> exactly the bytes received: when the send succeeds the payload sent is
  \<open>msg.Data\<close>, unmodified, and when it fails nothing is sent. Over a session whose
  sends all succeed the payloads sent are the payloads received, one for one and in the
  same order.
\<close>

theorem C9_echo_unmodified:
  "(\<not> send_fails \<longrightarrow> sent (OnMessage msg send_fails dc) = sent dc @ [Data msg])
   \<and> (send_fails \<longrightarrow> sent (OnMessage msg send_fails dc) = sent dc)
   \<and> ((\<forall>ev \<in> set evs. \<not> snd ev) \<longrightarrow>
        sent (handle_messages evs dc) = sent dc @ map (\<lambda>ev. Data (fst ev)) evs)"
proof -
  have "filter (\<lambda>(msg, send_fails). \<not> send_fails) evs = evs" if "\<forall>ev \<in> set evs. \<not> snd ev"
    using that by (induction evs) auto
  then show ?thesis
    by (auto simp: OnMessage_sent handle_messages_sent case_prod_beta)
qed

theorem C9_echo_unmodified_witness:
  "sent (OnMessage example_message False example_channel)
       = [[123, 34, 105, 100, 34, 58, 48, 125]]
   \<and> sent (OnMessage example_message True example_channel) = []
   \<and> \<not> snd (example_message, False) \<and> \<not> snd (example_message2, False)
   \<and> sent (handle_messages [(example_message, False), (example_message2, False)] example_channel)
       = [[123, 34, 105, 100, 34, 58, 48, 125], [0, 255, 7]]"
  using C9_echo_unmodified [of False example_message example_channel
          "[(example_message, False), (example_message2, False)]"]
        C9_echo_unmodified [of True example_message example_channel "[]"]
  by (simp add: example_channel_def example_message_def example_message2_def)

section \<open>Properties of the download handler\<close>

lemma chunk_lengths_zero: "chunk_lengths 0 c = []"
  by (simp add: chunk_lengths_def)

lemma chunk_lengths_last:
  assumes "0 < r" and "r < c"
  shows "chunk_lengths r c = [r]"
  using assms by (simp add: chunk_lengths_def)

lemma chunk_lengths_full:
  assumes "0 < c" and "c \<le> r"
  shows "chunk_lengths r c = c # chunk_lengths (r - c) c"
proof -
  have d: "r div c = (r - c) div c + 1"
    using assms by (metis add.commute diff_add_cancel div_add_self1 less_numeral_extra(3) order_less_irrefl)
  have m: "r mod c = (r - c) mod c"
    using assms by (metis mod_add_self2 diff_add_cancel)
  have "0 \<le> (r - c) div c"
    using assms by (simp add: pos_imp_zdiv_nonneg_iff)
  then have n: "nat (r div c) = Suc (nat ((r - c) div c))"
    using d by simp
  show ?thesis
    unfolding chunk_lengths_def
    by (simp only: n m [symmetric] replicate_Suc append_Cons)
qed

lemma stream_loop_all_ok:
  assumes "\<forall>n. write_ok n" and "0 < csize" and "sentBytes \<le> tsize"
  shows "stream_loop write_ok tsize csize sentBytes ws
           = Some (ws @ chunk_lengths (tsize - sentBytes) csize, True)"
  using assms
proof (induction write_ok tsize csize sentBytes ws rule: stream_loop.induct)
  case (1 write_ok tsize csize sentBytes ws)
  show ?case
  proof (cases "sentBytes < tsize")
    case False
    with "1.prems" have "sentBytes = tsize" by simp
    then show ?thesis
      by (subst stream_loop.simps) (simp add: chunk_lengths_zero)
  next
    case True
    define b where "b = (if tsize - sentBytes < csize then tsize - sentBytes else csize)"
    have ok: "write_ok (length ws)" using "1.prems" by simp
    have nz: "\<not> csize \<le> 0" using "1.prems" by simp
    have le: "sentBytes + b \<le> tsize" using True by (simp add: b_def)
    have step: "stream_loop write_ok tsize csize sentBytes ws
                  = stream_loop write_ok tsize csize (sentBytes + b) (ws @ [b])"
      using True ok nz by (subst stream_loop.simps) (simp add: b_def Let_def)
    have ih: "stream_loop write_ok tsize csize (sentBytes + b) (ws @ [b])
                = Some ((ws @ [b]) @ chunk_lengths (tsize - (sentBytes + b)) csize, True)"
      using "1.IH" [OF True nz b_def _ "1.prems"(1,2) le] ok by simp
    have "chunk_lengths (tsize - sentBytes) csize
            = b # chunk_lengths (tsize - (sentBytes + b)) csize"
    proof (cases "tsize - sentBytes < csize")
      case True
      then show ?thesis
        using \<open>sentBytes < tsize\<close> by (simp add: b_def chunk_lengths_last chunk_lengths_zero)
    next
      case False
      then show ?thesis
        using "1.prems"(2) chunk_lengths_full [of csize "tsize - sentBytes"]
        by (simp add: b_def algebra_simps)
    qed
    then show ?thesis
      using step ih by simp
  qed
qed

lemma sum_list_chunk_lengths:
  assumes "0 < c" and "0 \<le> r"
  shows "sum_list (chunk_lengths r c) = r"
proof -
  have "0 \<le> r div c" using assms by (simp add: pos_imp_zdiv_nonneg_iff)
  then have "sum_list (replicate (nat (r div c)) c) = (r div c) * c"
    by (simp add: sum_list_replicate)
  then show ?thesis
    using div_mult_mod_eq [of r c] by (auto simp: chunk_lengths_def)
qed

lemma length_chunk_lengths:
  assumes "0 < c" and "0 \<le> r"
  shows "int (length (chunk_lengths r c)) = \<lceil>real_of_int r / real_of_int c\<rceil>"
proof -
  have nn: "0 \<le> r div c" using assms by (simp add: pos_imp_zdiv_nonneg_iff)
  have "\<lceil>real_of_int r / real_of_int c\<rceil> = - ((- r) div c)"
    by (simp add: ceiling_divide_eq_div)
  also have "\<dots> = r div c + (if r mod c = 0 then 0 else 1)"
    using assms by (simp add: zdiv_zminus1_eq_if)
  finally show ?thesis
    using nn by (simp add: chunk_lengths_def)
qed

lemma set_chunk_lengths:
  assumes "0 < c" and "0 \<le> r" and "w \<in> set (chunk_lengths r c)"
  shows "0 < w \<and> w \<le> c"
proof -
  have pos: "0 < r mod c" if "r mod c \<noteq> 0"
    using that pos_mod_sign [of c r] assms(1) by linarith
  have "r mod c \<le> c"
    using pos_mod_bound [of c r] assms(1) by linarith
  then show ?thesis
    using assms pos by (auto simp: chunk_lengths_def split: if_splits)
qed

lemma wrap64_id:
  assumes "- (2 ^ 63) \<le> x" and "x < 2 ^ 63"
  shows "wrap64 x = x"
  using assms by (simp add: wrap64_def)

lemma totalSize_min: "1024 * 1024 \<le> totalSize cfg p"
  by (simp add: totalSize_def Let_def)

lemma chunkSize_pos: "0 < chunkSize cfg"
  by (simp add: chunkSize_def Let_def)

lemma requestedSizeMB_le:
  "requestedSizeMB cfg p \<le> min (maxDownloadSize cfg) 1024"
  by (simp add: requestedSizeMB_def globalMaxDownloadSizeMB_def Let_def split: prod.splits)

lemma requestedSizeMB_ge:
  "1 \<le> maxDownloadSize cfg \<Longrightarrow> 1 \<le> requestedSizeMB cfg p"
  by (simp add: requestedSizeMB_def globalMaxDownloadSizeMB_def Let_def split: prod.splits)

lemma requestedSizeMB_default:
  assumes "snd (ParseInt p) \<noteq> None \<or> fst (ParseInt p) \<le> 0"
  shows "requestedSizeMB cfg p = min 10 (min (maxDownloadSize cfg) 1024)"
  using assms
  by (auto simp: requestedSizeMB_def globalMaxDownloadSizeMB_def Let_def split: prod.splits)

lemma requestedSizeMB_capped:
  assumes "snd (ParseInt p) = None" and "min (maxDownloadSize cfg) 1024 < fst (ParseInt p)"
    and "1 \<le> maxDownloadSize cfg"
  shows "requestedSizeMB cfg p = min (maxDownloadSize cfg) 1024"
  using assms
  by (auto simp: requestedSizeMB_def globalMaxDownloadSizeMB_def Let_def split: prod.splits)

lemma requestedSizeMB_in_range:
  assumes "snd (ParseInt p) = None" and "1 \<le> fst (ParseInt p)"
    and "fst (ParseInt p) \<le> min (maxDownloadSize cfg) 1024"
  shows "requestedSizeMB cfg p = fst (ParseInt p)"
  using assms
  by (auto simp: requestedSizeMB_def globalMaxDownloadSizeMB_def Let_def split: prod.splits)

lemma totalSize_MB:
  assumes "1 \<le> maxDownloadSize cfg"
  shows "totalSize cfg p = requestedSizeMB cfg p * 1024 * 1024"
proof -
  have lo: "1 \<le> requestedSizeMB cfg p"
    using assms by (rule requestedSizeMB_ge)
  have hi: "requestedSizeMB cfg p \<le> 1024"
    using requestedSizeMB_le [of cfg p] by simp
  have a: "wrap64 (requestedSizeMB cfg p * 1024) = requestedSizeMB cfg p * 1024"
    using lo hi by (intro wrap64_id) simp_all
  have b: "wrap64 (requestedSizeMB cfg p * 1024 * 1024) = requestedSizeMB cfg p * 1024 * 1024"
    using lo hi by (intro wrap64_id) simp_all
  have t: "wrap64 (wrap64 (requestedSizeMB cfg p * 1024) * 1024)
             = requestedSizeMB cfg p * 1024 * 1024"
    unfolding a by (rule b)
  have "\<not> requestedSizeMB cfg p * 1024 * 1024 < 1024 * 1024"
    using lo by simp
  then show ?thesis
    unfolding totalSize_def Let_def t by (simp only: if_False)
qed

lemma main_validation_max:
  "maxDownloadSize (main_validation cfg) = min (maxDownloadSize cfg) 1024"
  by (simp add: main_validation_def globalMaxDownloadSizeMB_def)

lemma downloadHandler_all_ok:
  assumes "\<forall>n. write_ok n"
  shows "downloadHandler cfg p write_ok
           = Some \<lparr>content_length = totalSize cfg p,
                   writes = chunk_lengths (totalSize cfg p) (chunkSize cfg),
                   finished = True\<rparr>"
proof -
  have "0 \<le> totalSize cfg p"
    using totalSize_min [of cfg p] by simp
  then have "stream_loop write_ok (totalSize cfg p) (chunkSize cfg) 0 []
          = Some ([] @ chunk_lengths (totalSize cfg p - 0) (chunkSize cfg), True)"
    using assms chunkSize_pos by (intro stream_loop_all_ok) simp_all
  then show ?thesis
    by (simp add: downloadHandler_def Let_def)
qed

lemma requestedSizeMB_main_validation:
  "requestedSizeMB (main_validation cfg) p = requestedSizeMB cfg p"
  by (simp add: requestedSizeMB_def main_validation_def globalMaxDownloadSizeMB_def Let_def
        split: prod.splits)

lemma totalSize_main_validation:
  "totalSize (main_validation cfg) p = totalSize cfg p"
  by (simp add: totalSize_def requestedSizeMB_main_validation)

lemma ParseInt_empty: "ParseInt [] = (0, Some ErrSyntax)"
  by (simp add: ParseInt_def)

text \<open>
  Claim C4, amended. The size streamed is never below 1 MB, under any configuration,
  and the cap of \<open>main\<close> does not change it. On a server whose configured maximum
  is at least 1 MB it is at most \<open>min(configured max, 1024)\<close> MB; a size parameter
  that is missing, unparsable, zero or negative gives the default of 10 MB cut to that
  cap, hence 10 MB whenever the configured maximum is at least 10 MB; a size above the
  cap gives exactly the cap. When every write succeeds the bytes streamed are the size
  announced.
\<close>

theorem C4_effective_size:
  "1024 * 1024 \<le> totalSize cfg p
   \<and> totalSize (main_validation cfg) p = totalSize cfg p
   \<and> (1 \<le> maxDownloadSize cfg \<longrightarrow>
        totalSize cfg p \<le> min (maxDownloadSize cfg) 1024 * 1024 * 1024
        \<and> (snd (ParseInt p) \<noteq> None \<or> fst (ParseInt p) \<le> 0 \<longrightarrow>
             totalSize cfg p = min 10 (min (maxDownloadSize cfg) 1024) * 1024 * 1024)
        \<and> (snd (ParseInt p) = None \<and> min (maxDownloadSize cfg) 1024 < fst (ParseInt p) \<longrightarrow>
             totalSize cfg p = min (maxDownloadSize cfg) 1024 * 1024 * 1024))
   \<and> (10 \<le> maxDownloadSize cfg \<and> (snd (ParseInt p) \<noteq> None \<or> fst (ParseInt p) \<le> 0) \<longrightarrow>
        totalSize cfg p = 10 * 1024 * 1024)
   \<and> snd (ParseInt []) \<noteq> None
   \<and> ((\<forall>n. write_ok n) \<longrightarrow>
        (\<exists>resp. downloadHandler cfg p write_ok = Some resp
           \<and> content_length resp = totalSize cfg p
           \<and> sum_list (writes resp) = totalSize cfg p))"
proof -
  have le: "totalSize cfg p \<le> min (maxDownloadSize cfg) 1024 * 1024 * 1024"
    if "1 \<le> maxDownloadSize cfg"
    using totalSize_MB [OF that, of p] requestedSizeMB_le [of cfg p] by simp
  have dflt: "totalSize cfg p = min 10 (min (maxDownloadSize cfg) 1024) * 1024 * 1024"
    if "1 \<le> maxDownloadSize cfg" and "snd (ParseInt p) \<noteq> None \<or> fst (ParseInt p) \<le> 0"
    using totalSize_MB [OF that(1), of p] requestedSizeMB_default [OF that(2), of cfg] by simp
  have cap: "totalSize cfg p = min (maxDownloadSize cfg) 1024 * 1024 * 1024"
    if "1 \<le> maxDownloadSize cfg" and "snd (ParseInt p) = None"
      and "min (maxDownloadSize cfg) 1024 < fst (ParseInt p)"
    using totalSize_MB [OF that(1), of p] requestedSizeMB_capped [OF that(2,3,1)] by simp
  have ten: "totalSize cfg p = 10 * 1024 * 1024"
    if "10 \<le> maxDownloadSize cfg" and "snd (ParseInt p) \<noteq> None \<or> fst (ParseInt p) \<le> 0"
  proof -
    have "1 \<le> maxDownloadSize cfg" using that(1) by simp
    from dflt [OF this that(2)] that(1) show ?thesis by simp
  qed
  have stream: "\<exists>resp. downloadHandler cfg p write_ok = Some resp
           \<and> content_length resp = totalSize cfg p
           \<and> sum_list (writes resp) = totalSize cfg p"
    if "\<forall>n. write_ok n"
  proof -
    have "0 \<le> totalSize cfg p" using totalSize_min [of cfg p] by simp
    then show ?thesis
      using downloadHandler_all_ok [OF that, of cfg p]
        sum_list_chunk_lengths [OF chunkSize_pos, of "totalSize cfg p" cfg]
      by simp
  qed
  show ?thesis
    using totalSize_min [of cfg p] totalSize_main_validation [of cfg p] le dflt cap ten stream
    by (simp add: ParseInt_empty)
qed

theorem C4_default_not_always_ten:
  "totalSize small_config [] = 5 * 1024 * 1024
   \<and> totalSize small_config [] \<noteq> 10 * 1024 * 1024
   \<and> totalSize zero_max_config ''50'' = 1024 * 1024
   \<and> min (maxDownloadSize zero_max_config) 1024 * 1024 * 1024 < totalSize zero_max_config ''50''"
  by (simp add: totalSize_def requestedSizeMB_def small_config_def zero_max_config_def
        ParseInt_def ParseUint_def digit_of_def maxUint64_def globalMaxDownloadSizeMB_def
        wrap64_def Let_def)

lemma ParseInt_examples:
  "ParseInt ''abc'' = (0, Some ErrSyntax)"
  "ParseInt ''0'' = (0, None)"
  "ParseInt ''-5'' = (- 5, None)"
  "ParseInt ''500'' = (500, None)"
  "ParseInt ''99999999999999999999'' = (2 ^ 63 - 1, Some ErrRange)"
  by (simp_all add: ParseInt_def ParseUint_def digit_of_def maxUint64_def Let_def)

theorem C4_effective_size_witness:
  "1 \<le> maxDownloadSize default_config \<and> 10 \<le> maxDownloadSize default_config
   \<and> snd (ParseInt []) \<noteq> None \<and> totalSize default_config [] = 10 * 1024 * 1024
   \<and> snd (ParseInt ''abc'') \<noteq> None \<and> totalSize default_config ''abc'' = 10 * 1024 * 1024
   \<and> fst (ParseInt ''0'') \<le> 0 \<and> totalSize default_config ''0'' = 10 * 1024 * 1024
   \<and> fst (ParseInt ''-5'') \<le> 0 \<and> totalSize default_config ''-5'' = 10 * 1024 * 1024
   \<and> snd (ParseInt ''500'') = None
   \<and> min (maxDownloadSize default_config) 1024 < fst (ParseInt ''500'')
   \<and> totalSize default_config ''500'' = 100 * 1024 * 1024
   \<and> 1 \<le> maxDownloadSize small_config
   \<and> totalSize small_config [] = min 10 5 * 1024 * 1024
   \<and> (\<forall>n. always_ok n)
   \<and> (\<exists>resp. downloadHandler default_config ''500'' always_ok = Some resp
         \<and> content_length resp = 100 * 1024 * 1024
         \<and> sum_list (writes resp) = 100 * 1024 * 1024)"
proof -
  have cfg: "maxDownloadSize default_config = 100" "maxDownloadSize small_config = 5"
    by (simp_all add: default_config_def small_config_def)
  have ok: "\<forall>n. always_ok n"
    by (simp add: always_ok_def)
  have a: "totalSize default_config [] = 10 * 1024 * 1024"
    using C4_effective_size [of default_config "[]"] cfg by (simp add: ParseInt_empty)
  have b: "totalSize default_config ''abc'' = 10 * 1024 * 1024"
    using C4_effective_size [of default_config "''abc''"] cfg by (simp add: ParseInt_examples)
  have c: "totalSize default_config ''0'' = 10 * 1024 * 1024"
    using C4_effective_size [of default_config "''0''"] cfg by (simp add: ParseInt_examples)
  have d: "totalSize default_config ''-5'' = 10 * 1024 * 1024"
    using C4_effective_size [of default_config "''-5''"] cfg by (simp add: ParseInt_examples)
  have e: "totalSize default_config ''500'' = 100 * 1024 * 1024"
    using C4_effective_size [of default_config "''500''"] cfg by (simp add: ParseInt_examples)
  have f: "totalSize small_config [] = min 10 5 * 1024 * 1024"
    using C4_effective_size [of small_config "[]"] cfg by (simp add: ParseInt_empty)
  have g: "\<exists>resp. downloadHandler default_config ''500'' always_ok = Some resp
         \<and> content_length resp = 100 * 1024 * 1024
         \<and> sum_list (writes resp) = 100 * 1024 * 1024"
    using C4_effective_size [of default_config "''500''" always_ok] ok e by simp
  show ?thesis
    using a b c d e f g ok cfg by (simp add: ParseInt_empty ParseInt_examples)
qed

section \<open>The writes of the download handler\<close>

lemma chunkSize_cases:
  "0 < downloadChunkSize cfg \<Longrightarrow> chunkSize cfg = downloadChunkSize cfg"
  "downloadChunkSize cfg \<le> 0 \<Longrightarrow> chunkSize cfg = 1024 * 1024"
  by (simp_all add: chunkSize_def Let_def)

lemma downloadHandler_writes:
  assumes "\<forall>n. write_ok n" and "chunkSize cfg = C"
  shows "\<exists>ws. downloadHandler cfg p write_ok
                 = Some \<lparr>content_length = totalSize cfg p, writes = ws, finished = True\<rparr>
              \<and> ws = replicate (nat (totalSize cfg p div C)) C
                       @ (if totalSize cfg p mod C = 0 then [] else [totalSize cfg p mod C])
              \<and> int (length ws) = \<lceil>real_of_int (totalSize cfg p) / real_of_int C\<rceil>
              \<and> sum_list ws = totalSize cfg p
              \<and> (\<forall>w \<in> set ws. 0 < w \<and> w \<le> C)"
proof -
  have T: "0 \<le> totalSize cfg p" using totalSize_min [of cfg p] by simp
  have C: "0 < C" using chunkSize_pos [of cfg] assms(2) by simp
  have "downloadHandler cfg p write_ok
          = Some \<lparr>content_length = totalSize cfg p,
                  writes = chunk_lengths (totalSize cfg p) C, finished = True\<rparr>"
    using downloadHandler_all_ok [OF assms(1), of cfg p] assms(2) by simp
  moreover have "chunk_lengths (totalSize cfg p) C
          = replicate (nat (totalSize cfg p div C)) C
              @ (if totalSize cfg p mod C = 0 then [] else [totalSize cfg p mod C])"
    by (simp add: chunk_lengths_def)
  ultimately show ?thesis
    using length_chunk_lengths [OF C T] sum_list_chunk_lengths [OF C T]
      set_chunk_lengths [OF C T]
    by metis
qed

text \<open>
  Claim C5, amended. When every write succeeds, the download handler makes
  \<open>ceil(T / C)\<close> writes for the effective total size \<open>T\<close> and the chunk size \<open>C\<close>,
  which is the configured chunk size, or 1 MB when that is not positive: first the full
  chunks of \<open>C\<close> bytes, then the rest if there is one, each write of at most \<open>C\<close>
  bytes, and their lengths add up to \<open>T\<close>. On a server whose configured maximum is at
  least 10 MB, a request for 10 MB with a chunk size of 1 MB is answered with exactly 10
  writes of 1 MB, \<open>10 * 1024 * 1024\<close> bytes in all.
\<close>

theorem C5_chunk_writes:
  assumes "\<forall>n. write_ok n"
  shows "(0 < downloadChunkSize cfg \<longrightarrow>
           (\<exists>ws. downloadHandler cfg p write_ok
                    = Some \<lparr>content_length = totalSize cfg p, writes = ws, finished = True\<rparr>
              \<and> ws = replicate (nat (totalSize cfg p div downloadChunkSize cfg))
                        (downloadChunkSize cfg)
                       @ (if totalSize cfg p mod downloadChunkSize cfg = 0 then []
                          else [totalSize cfg p mod downloadChunkSize cfg])
              \<and> int (length ws)
                  = \<lceil>real_of_int (totalSize cfg p) / real_of_int (downloadChunkSize cfg)\<rceil>
              \<and> sum_list ws = totalSize cfg p
              \<and> (\<forall>w \<in> set ws. 0 < w \<and> w \<le> downloadChunkSize cfg)))
         \<and> (downloadChunkSize cfg \<le> 0 \<longrightarrow>
           (\<exists>ws. downloadHandler cfg p write_ok
                    = Some \<lparr>content_length = totalSize cfg p, writes = ws, finished = True\<rparr>
              \<and> ws = replicate (nat (totalSize cfg p div (1024 * 1024))) (1024 * 1024)
                       @ (if totalSize cfg p mod (1024 * 1024) = 0 then []
                          else [totalSize cfg p mod (1024 * 1024)])
              \<and> int (length ws) = \<lceil>real_of_int (totalSize cfg p) / real_of_int (1024 * 1024)\<rceil>
              \<and> sum_list ws = totalSize cfg p
              \<and> (\<forall>w \<in> set ws. 0 < w \<and> w \<le> 1024 * 1024)))
         \<and> (10 \<le> maxDownloadSize cfg \<and> downloadChunkSize cfg = 1024 * 1024 \<longrightarrow>
               totalSize cfg ''10'' = 10 * 1024 * 1024
               \<and> downloadHandler cfg ''10'' write_ok
                   = Some \<lparr>content_length = 10 * 1024 * 1024,
                           writes = replicate 10 (1024 * 1024), finished = True\<rparr>)"
proof -
  have pos: "\<exists>ws. downloadHandler cfg p write_ok
                    = Some \<lparr>content_length = totalSize cfg p, writes = ws, finished = True\<rparr>
              \<and> ws = replicate (nat (totalSize cfg p div downloadChunkSize cfg))
                        (downloadChunkSize cfg)
                       @ (if totalSize cfg p mod downloadChunkSize cfg = 0 then []
                          else [totalSize cfg p mod downloadChunkSize cfg])
              \<and> int (length ws)
                  = \<lceil>real_of_int (totalSize cfg p) / real_of_int (downloadChunkSize cfg)\<rceil>
              \<and> sum_list ws = totalSize cfg p
              \<and> (\<forall>w \<in> set ws. 0 < w \<and> w \<le> downloadChunkSize cfg)"
    if "0 < downloadChunkSize cfg"
    by (rule downloadHandler_writes [OF assms chunkSize_cases(1) [OF that]])
  have fallback: "\<exists>ws. downloadHandler cfg p write_ok
                    = Some \<lparr>content_length = totalSize cfg p, writes = ws, finished = True\<rparr>
              \<and> ws = replicate (nat (totalSize cfg p div (1024 * 1024))) (1024 * 1024)
                       @ (if totalSize cfg p mod (1024 * 1024) = 0 then []
                          else [totalSize cfg p mod (1024 * 1024)])
              \<and> int (length ws) = \<lceil>real_of_int (totalSize cfg p) / real_of_int (1024 * 1024)\<rceil>
              \<and> sum_list ws = totalSize cfg p
              \<and> (\<forall>w \<in> set ws. 0 < w \<and> w \<le> 1024 * 1024)"
    if "downloadChunkSize cfg \<le> 0"
    by (rule downloadHandler_writes [OF assms chunkSize_cases(2) [OF that]])
  have ten: "totalSize cfg ''10'' = 10 * 1024 * 1024
             \<and> downloadHandler cfg ''10'' write_ok
                 = Some \<lparr>content_length = 10 * 1024 * 1024,
                         writes = replicate 10 (1024 * 1024), finished = True\<rparr>"
    if big: "10 \<le> maxDownloadSize cfg" and chunk: "downloadChunkSize cfg = 1024 * 1024"
  proof -
    have parse: "ParseInt ''10'' = (10, None)"
      by (simp add: ParseInt_def ParseUint_def digit_of_def maxUint64_def Let_def)
    have "requestedSizeMB cfg ''10'' = 10"
      using big by (intro trans [OF requestedSizeMB_in_range]) (simp_all add: parse)
    then have t: "totalSize cfg ''10'' = 10 * 1024 * 1024"
      using big totalSize_MB [of cfg "''10''"] by simp
    have c: "chunkSize cfg = 1024 * 1024"
      using chunk by (simp add: chunkSize_def)
    have "chunk_lengths (10 * 1024 * 1024) (1024 * 1024) = replicate 10 (1024 * 1024)"
      by (simp add: chunk_lengths_def)
    then show ?thesis
      using downloadHandler_all_ok [OF assms, of cfg "''10''"] by (simp add: t c)
  qed
  show ?thesis
    using pos fallback ten by blast
qed

text \<open>
  On a server started with \<open>-maxsize 5\<close> a request for 10 MB with a chunk size of
  1 MB is answered with 5 writes, 5 MB in all.
\<close>

theorem C5_capped_request_fewer_writes:
  "downloadHandler small_config ''10'' always_ok
     = Some \<lparr>content_length = 5 * 1024 * 1024, writes = replicate 5 (1024 * 1024),
             finished = True\<rparr>
   \<and> length (replicate 5 (1024 * 1024 :: int)) = 5
   \<and> sum_list (replicate 5 (1024 * 1024 :: int)) = 5 * 1024 * 1024"
proof -
  have ok: "\<forall>n. always_ok n"
    by (simp add: always_ok_def)
  have t: "totalSize small_config ''10'' = 5 * 1024 * 1024"
    by (simp add: totalSize_def requestedSizeMB_def small_config_def
        ParseInt_def ParseUint_def digit_of_def maxUint64_def globalMaxDownloadSizeMB_def
        wrap64_def Let_def)
  have c: "chunkSize small_config = 1024 * 1024"
    by (simp add: chunkSize_def small_config_def)
  have "chunk_lengths (5 * 1024 * 1024) (1024 * 1024) = replicate 5 (1024 * 1024)"
    by (simp add: chunk_lengths_def)
  then show ?thesis
    using downloadHandler_all_ok [OF ok, of small_config "''10''"]
    by (simp add: t c sum_list_replicate)
qed

lemma totalSize_ten_examples:
  "totalSize three_mb_chunk_config ''10'' = 10485760"
  "totalSize no_chunk_config ''10'' = 10485760"
  by (simp_all add: totalSize_def requestedSizeMB_def three_mb_chunk_config_def
        no_chunk_config_def ParseInt_def ParseUint_def digit_of_def maxUint64_def
        globalMaxDownloadSizeMB_def wrap64_def Let_def)

theorem C5_chunk_writes_witness:
  "(\<forall>n. always_ok n)
   \<and> 10 \<le> maxDownloadSize default_config
   \<and> downloadChunkSize default_config = 1024 * 1024
   \<and> downloadHandler default_config ''10'' always_ok
       = Some \<lparr>content_length = 10485760, writes = replicate 10 1048576, finished = True\<rparr>
   \<and> length (replicate 10 (1048576 :: int)) = 10
   \<and> sum_list (replicate 10 (1048576 :: int)) = 10 * 1024 * 1024
   \<and> 0 < downloadChunkSize three_mb_chunk_config
   \<and> downloadHandler three_mb_chunk_config ''10'' always_ok
       = Some \<lparr>content_length = 10485760,
               writes = [3145728, 3145728, 3145728, 1048576], finished = True\<rparr>
   \<and> \<lceil>10485760 / 3145728 :: real\<rceil> = 4
   \<and> downloadChunkSize no_chunk_config \<le> 0
   \<and> downloadHandler no_chunk_config ''10'' always_ok
       = Some \<lparr>content_length = 10485760, writes = replicate 10 1048576, finished = True\<rparr>"
proof -
  have ok: "\<forall>n. always_ok n"
    by (simp add: always_ok_def)
  have cfg: "10 \<le> maxDownloadSize default_config"
    "downloadChunkSize default_config = 1024 * 1024"
    by (simp_all add: default_config_def)
  have a: "downloadHandler default_config ''10'' always_ok
       = Some \<lparr>content_length = 10485760, writes = replicate 10 1048576, finished = True\<rparr>"
    using C5_chunk_writes [OF ok, of default_config "''10''"] cfg by simp
  have c3: "downloadChunkSize three_mb_chunk_config = 3145728"
    by (simp add: three_mb_chunk_config_def)
  have "\<exists>ws. downloadHandler three_mb_chunk_config ''10'' always_ok
                = Some \<lparr>content_length = 10485760, writes = ws, finished = True\<rparr>
             \<and> ws = replicate (nat (10485760 div 3145728)) 3145728
                     @ (if (10485760 :: int) mod 3145728 = 0 then [] else [10485760 mod 3145728])"
    using C5_chunk_writes [OF ok, of three_mb_chunk_config "''10''"]
    by (simp add: c3 totalSize_ten_examples)
  then have b: "downloadHandler three_mb_chunk_config ''10'' always_ok
       = Some \<lparr>content_length = 10485760,
               writes = [3145728, 3145728, 3145728, 1048576], finished = True\<rparr>"
    by (simp add: numeral_3_eq_3)
  have c0: "downloadChunkSize no_chunk_config = 0"
    by (simp add: no_chunk_config_def)
  have "\<exists>ws. downloadHandler no_chunk_config ''10'' always_ok
                = Some \<lparr>content_length = 10485760, writes = ws, finished = True\<rparr>
             \<and> ws = replicate (nat (10485760 div 1048576)) 1048576
                     @ (if (10485760 :: int) mod 1048576 = 0 then [] else [10485760 mod 1048576])"
    using C5_chunk_writes [OF ok, of no_chunk_config "''10''"]
    by (simp add: c0 totalSize_ten_examples)
  then have c: "downloadHandler no_chunk_config ''10'' always_ok
       = Some \<lparr>content_length = 10485760, writes = replicate 10 1048576, finished = True\<rparr>"
    by simp
  have ceil: "\<lceil>10485760 / 3145728 :: real\<rceil> = 4"
    by (simp add: ceiling_eq_iff)
  show ?thesis
    using ok cfg a b c ceil by (simp add: sum_list_replicate c3 c0)
qed

section \<open>The submitted and the persisted record of a run with failed sub-tests\<close>





lemma finite_or_zero_0 [simp]: "finite_or_zero (Finite x) = Finite x"
  by (simp add: finite_or_zero_def)




end
